theory Spec2Isabelle
  imports Main "HOL-Library.AList"
begin

section \<open>Data model of \<open>src/src/App.js\<close>\<close>

text \<open>
  A JavaScript string is modelled as a HOL \<open>string\<close>. A plain JavaScript object whose
  own properties are all data properties is an association list in insertion order:
  reading a property is \<open>map_of\<close>, defining one is \<open>AList.update\<close> (an existing key
  keeps its position, a new key is appended, as in JavaScript), \<open>delete obj[k]\<close> is
  \<open>AList.delete\<close>, \<open>Object.keys\<close> is \<open>map fst\<close>. The list holds the own properties;
  where the code reads a property that may be inherited from \<open>Object.prototype\<close>
  (line 481 and line 492), or assigns to a key that may be an accessor of
  \<open>Object.prototype\<close> (lines 174 and 178), the model says so at that place. The theorems below hold for
  every association list, so in particular for those with distinct keys, which are the
  JavaScript objects.
\<close>

type_synonym 'v obj = "(string \<times> 'v) list"

definition obj_get :: "'v obj \<Rightarrow> string \<Rightarrow> 'v option" where
  "obj_get ob k = map_of ob k"

definition obj_keys :: "'v obj \<Rightarrow> string list" where
  "obj_keys ob = map fst ob"

text \<open>\<open>skillsByCategory\<close>: broad category \<open>\<rightarrow>\<close> sub-category \<open>\<rightarrow>\<close> array of skills.\<close>

type_synonym sub_map = "string list obj"
type_synonym skill_map = "sub_map obj"

text \<open>The sequence stored under the own properties \<open>b\<close> and then \<open>s\<close>, if there is one.\<close>

definition get2 :: "skill_map \<Rightarrow> string \<Rightarrow> string \<Rightarrow> string list option" where
  "get2 skills b s = (case obj_get skills b of None \<Rightarrow> None | Some subCats \<Rightarrow> obj_get subCats s)"

section \<open>\<open>saveSkills\<close>: the cleaned copy written on save (lines 168--180)\<close>




text \<open>The prune invariant: no empty skill array and no empty sub-category object.\<close>

definition pruned :: "skill_map \<Rightarrow> bool" where
  "pruned skills \<longleftrightarrow>
     (\<forall>(b, subCats) \<in> set skills. subCats \<noteq> [] \<and> (\<forall>(s, l) \<in> set subCats. l \<noteq> []))"

section \<open>Strings and values\<close>

text \<open>
  A value that is a string or \<open>undefined\<close> (a field that a parsed response may lack).
  \<open>truthy\<close> is JavaScript's truthiness on such a value; \<open>key_of\<close> is the conversion to
  a property key.
\<close>

datatype jsval = Undefined | Str string

definition truthy :: "jsval \<Rightarrow> bool" where
  "truthy v = (case v of Undefined \<Rightarrow> False | Str s \<Rightarrow> s \<noteq> [])"

definition key_of :: "jsval \<Rightarrow> string" where
  "key_of v = (case v of Undefined \<Rightarrow> ''undefined'' | Str s \<Rightarrow> s)"

text \<open>
  \<open>String.prototype.trim\<close>. A \<open>char\<close> stands for a code unit below 256; of the white
  space and line terminators that \<open>trim\<close> strips, these seven are below 256 (tab, line
  feed, vertical tab, form feed, carriage return, space, no-break space).
\<close>

definition is_space :: "char \<Rightarrow> bool" where
  "is_space c \<longleftrightarrow>
     c \<in> set [CHR 0x09, CHR 0x0A, CHR 0x0B, CHR 0x0C, CHR 0x0D, CHR 0x20, CHR 0xA0]"

definition js_trim :: "string \<Rightarrow> string" where
  "js_trim s = rev (dropWhile is_space (rev (dropWhile is_space s)))"

text \<open>\<open>s.startsWith(p)\<close>, \<open>s.includes(sub)\<close> and \<open>s.split(c)\<close> for a one-character separator.\<close>

definition js_startsWith :: "string \<Rightarrow> string \<Rightarrow> bool" where
  "js_startsWith s p \<longleftrightarrow> take (length p) s = p"

fun js_includes :: "string \<Rightarrow> string \<Rightarrow> bool" where
  "js_includes [] sub \<longleftrightarrow> sub = []"
| "js_includes (c # cs) sub \<longleftrightarrow> js_startsWith (c # cs) sub \<or> js_includes cs sub"

fun js_split :: "char \<Rightarrow> string \<Rightarrow> string list" where
  "js_split sep [] = [[]]"
| "js_split sep (c # cs) =
     (if c = sep then [] # js_split sep cs
      else (case js_split sep cs of [] \<Rightarrow> [[c]] | w # ws \<Rightarrow> (c # w) # ws))"

section \<open>Application state (the \<open>useState\<close> hooks of \<open>App\<close>)\<close>

record app_state =
  selectedBroadCategories :: "jsval list"
  skillsByCategory :: skill_map
  newSkillInput :: string
  activeBroadCategory :: string
  activeSubCategory :: string
  newCustomBroadCategory :: string
  suggestedSubCategories :: "string list"
  suggestedSpecificSkills :: "string list"
  loadingSubCategories :: bool
  loadingSpecificSkills :: bool
  loadingAutoCategorization :: bool
  selectedSuggestedSkill :: string

definition broadCategories :: "string list" where
  "broadCategories =
     [''Creative & Design'', ''Tech & Digital'', ''Business & Professional'',
      ''Services & Personal Care'', ''Manual & Trades'', ''Education & Health'',
      ''Food & Hospitality'']"

section \<open>The suggestion endpoint and the retry loop\<close>

text \<open>
  What one \<open>fetch\<close> gives: the promise rejects (\<open>NetworkError\<close>), or there is a response
  with its \<open>ok\<close> flag and the value of \<open>response.json()\<close> (\<open>None\<close> when that rejects or
  yields \<open>null\<close>). Every field that the code tests for truthiness is optional.
\<close>

datatype part = Part (part_text: "string option")
datatype content = Content (parts: "part list option")
datatype candidate = Candidate (content: "content option")
datatype api_result = ApiResult (candidates: "candidate list option")
datatype response = NetworkError | Response (ok: bool) (body: "api_result option")

text \<open>
  The guard \<open>result.candidates && result.candidates.length > 0 &&
  result.candidates[0].content && result.candidates[0].content.parts &&
  result.candidates[0].content.parts.length > 0\<close> and then \<open>parts[0].text\<close>. The outer
  \<open>None\<close> is the \<open>else\<close> branch, which throws; the inner one is a text that is
  \<open>undefined\<close>.
\<close>

definition response_text :: "api_result \<Rightarrow> string option option" where
  "response_text result =
     (case candidates result of
        None \<Rightarrow> None
      | Some cands \<Rightarrow>
          (case cands of
             [] \<Rightarrow> None
           | cand # _ \<Rightarrow>
               (case content cand of
                  None \<Rightarrow> None
                | Some c \<Rightarrow>
                    (case parts c of
                       None \<Rightarrow> None
                     | Some ps \<Rightarrow> (case ps of [] \<Rightarrow> None | p # _ \<Rightarrow> Some (part_text p))))))"

text \<open>\<open>text.split(',').map(s => s.trim()).filter(s => s.length > 0)\<close>\<close>

definition parse_suggestions :: "string \<Rightarrow> string list" where
  "parse_suggestions txt = filter (\<lambda>s. length s > 0) (map js_trim (js_split CHR '','' txt))"

text \<open>
  The \<open>try\<close> block of \<open>fetchSubCategories\<close> and of \<open>fetchSpecificSkills\<close> up to the
  setter: \<open>None\<close> when it throws (the fetch rejects, \<open>!response.ok\<close>, \<open>json()\<close> rejects,
  the guard fails, or \<open>text\<close> is \<open>undefined\<close> and \<open>text.split\<close> throws).
\<close>

definition suggest_attempt :: "response \<Rightarrow> string list option" where
  "suggest_attempt r =
     (case r of
        NetworkError \<Rightarrow> None
      | Response ok_flag b \<Rightarrow>
          if \<not> ok_flag then None
          else (case b of
                  None \<Rightarrow> None
                | Some result \<Rightarrow>
                    (case response_text result of
                       None \<Rightarrow> None
                     | Some None \<Rightarrow> None
                     | Some (Some txt) \<Rightarrow> Some (parse_suggestions txt))))"

text \<open>What the code does that is not a state update: a \<open>fetch\<close>, a \<open>console.error\<close> with
  the attempt number it prints, a \<open>setTimeout\<close> wait in milliseconds, a \<open>console.warn\<close>,
  and a \<open>TypeError\<close> that nothing catches, which ends the handler where it is thrown.\<close>

datatype event = Fetch | ConsoleError nat | Wait nat | ConsoleWarn | UncaughtTypeError

definition maxAttempts :: nat where
  "maxAttempts = 5"

definition baseDelay :: nat where
  "baseDelay = 1000"

text \<open>
  The loop \<open>while (attempts < maxAttempts) { try { ... break; } catch (error) { ... } }\<close>.
  The source writes it three times (lines 218--251, 271--304, 399--465) with the same
  \<open>catch\<close> block, but for the last statement of the third: \<open>try_block\<close> is the body of
  the \<open>try\<close> on the state \<open>s\<close> the loop updates (\<open>None\<close> when it throws), \<open>net attempts\<close>
  is what the fetch of this round gives, and \<open>on_exhausted\<close> is the statement under
  \<open>if (attempts === maxAttempts)\<close> at the end of the \<open>catch\<close> block (the identity in the
  first two loops, which have no such statement).
\<close>

function retry_loop ::
  "('s \<Rightarrow> response \<Rightarrow> 's option) \<Rightarrow> ('s \<Rightarrow> 's) \<Rightarrow> (nat \<Rightarrow> response) \<Rightarrow> nat \<Rightarrow> 's \<Rightarrow> event list
     \<Rightarrow> 's \<times> event list" where
  "retry_loop try_block on_exhausted net attempts s ev =
     (if attempts < maxAttempts then
        (case try_block s (net attempts) of
           Some s' \<Rightarrow> (s', ev @ [Fetch])
         | None \<Rightarrow>
             (let ev1 = ev @ [Fetch, ConsoleError (attempts + 1)];
                  attempts' = attempts + 1;
                  ev2 = (if attempts' < maxAttempts
                         then ev1 @ [Wait (baseDelay * 2 ^ (attempts' - 1))] else ev1);
                  s' = (if attempts' = maxAttempts then on_exhausted s else s)
              in retry_loop try_block on_exhausted net attempts' s' ev2))
      else (s, ev))"
  by pat_completeness auto
termination
  by (relation "measure (\<lambda>(t, e, n, attempts, s, ev). maxAttempts - attempts)") auto

text \<open>\<open>fetchSubCategories(category)\<close> (lines 207--253), on the responses \<open>net\<close>.\<close>

definition fetchSubCategories :: "(nat \<Rightarrow> response) \<Rightarrow> string \<Rightarrow> app_state \<Rightarrow> app_state \<times> event list" where
  "fetchSubCategories net category st =
     (if category = [] \<or> category = ''Other'' then (st\<lparr>suggestedSubCategories := []\<rparr>, [])
      else
        (let (st', ev) =
               retry_loop
                 (\<lambda>s r. map_option (\<lambda>parsed. s\<lparr>suggestedSubCategories := parsed\<rparr>)
                                    (suggest_attempt r))
                 (\<lambda>s. s) net 0 (st\<lparr>loadingSubCategories := True\<rparr>) []
         in (st'\<lparr>loadingSubCategories := False\<rparr>, ev)))"

text \<open>\<open>fetchSpecificSkills(broadCat, subCat)\<close> (lines 260--306).\<close>

definition fetchSpecificSkills ::
  "(nat \<Rightarrow> response) \<Rightarrow> string \<Rightarrow> string \<Rightarrow> app_state \<Rightarrow> app_state \<times> event list" where
  "fetchSpecificSkills net broadCat subCat st =
     (if broadCat = [] \<or> subCat = [] \<or> broadCat = ''Other''
      then (st\<lparr>suggestedSpecificSkills := []\<rparr>, [])
      else
        (let (st', ev) =
               retry_loop
                 (\<lambda>s r. map_option (\<lambda>parsed. s\<lparr>suggestedSpecificSkills := parsed\<rparr>)
                                    (suggest_attempt r))
                 (\<lambda>s. s) net 0 (st\<lparr>loadingSpecificSkills := True\<rparr>) []
         in (st'\<lparr>loadingSpecificSkills := False\<rparr>, ev)))"

section \<open>\<open>handleAddSkill\<close> (lines 370--498)\<close>

text \<open>
  The local variables \<open>targetBroadCategory\<close> and \<open>targetSubCategory\<close>, and in \<open>selected\<close>
  the state \<open>selectedBroadCategories\<close> with the updates \<open>prev => [...prev, x]\<close> that the
  handler has queued so far. The tests \<open>selectedBroadCategories.includes(x)\<close> read the
  value the handler was created with, \<open>closureSelected\<close> below. A handler is taken to
  be created by the render of the current state, and no other event is taken to run
  between its start and its end, so what it reads from its closure is the state
  \<open>st\<close> and what its updater functions receive as \<open>prev\<close> is that state too.
\<close>

record target =
  targetBroadCategory :: jsval
  targetSubCategory :: jsval
  selected :: "jsval list"

text \<open>
  \<open>JSON.parse\<close> is a parameter, \<open>JSON_parse\<close>: \<open>None\<close> when it throws, \<open>JsonNull\<close> for
  \<open>null\<close> (reading a property of it throws), \<open>JsonObject\<close> for an object with the string
  fields given (the response schema asks for strings), which also stands for any other
  value, where both properties read as \<open>undefined\<close>.
\<close>

datatype json = JsonNull | JsonObject "string obj"

definition json_field :: "string obj \<Rightarrow> string \<Rightarrow> jsval" where
  "json_field parsedJson k = (case obj_get parsedJson k of None \<Rightarrow> Undefined | Some v \<Rightarrow> Str v)"

text \<open>The \<open>try\<close> block of the auto-categorization loop (lines 400--448).\<close>

definition auto_attempt ::
  "(string \<Rightarrow> json option) \<Rightarrow> jsval list \<Rightarrow> target \<Rightarrow> response \<Rightarrow> target option" where
  "auto_attempt JSON_parse closureSelected t r =
     (case r of
        NetworkError \<Rightarrow> None
      | Response ok_flag b \<Rightarrow>
          if \<not> ok_flag then None
          else (case b of
                  None \<Rightarrow> None
                | Some result \<Rightarrow>
                    (case response_text result of
                       None \<Rightarrow> None
                     | Some None \<Rightarrow> None
                     | Some (Some jsonString) \<Rightarrow>
                         (case JSON_parse jsonString of
                            None \<Rightarrow> None
                          | Some JsonNull \<Rightarrow> None
                          | Some (JsonObject parsedJson) \<Rightarrow>
                              (let bc = json_field parsedJson ''broadCategory'';
                                   sc = json_field parsedJson ''subCategory''
                               in if bc = Str ''Other'' then
                                    Some (t\<lparr>targetBroadCategory := Str ''Other_Auto_Uncategorized'',
                                            targetSubCategory :=
                                              (if truthy sc then sc else Str ''General''),
                                            selected :=
                                              (if Str ''Other'' \<notin> set closureSelected
                                               then selected t @ [Str ''Other'']
                                               else selected t)\<rparr>)
                                  else if bc \<notin> set closureSelected then
                                    Some (t\<lparr>targetBroadCategory := bc, targetSubCategory := sc,
                                            selected := selected t @ [bc]\<rparr>)
                                  else
                                    Some (t\<lparr>targetBroadCategory := bc,
                                            targetSubCategory := sc\<rparr>))))))"

text \<open>The statement under \<open>if (attempts === maxAttempts)\<close> (lines 457--463).\<close>

definition auto_fallback :: "jsval list \<Rightarrow> target \<Rightarrow> target" where
  "auto_fallback closureSelected t =
     t\<lparr>targetBroadCategory := Str ''Other_Auto_Uncategorized'',
       targetSubCategory := Str ''General'',
       selected := (if Str ''Other'' \<notin> set closureSelected then selected t @ [Str ''Other'']
                    else selected t)\<rparr>"

definition skillToAdd :: "app_state \<Rightarrow> string" where
  "skillToAdd st =
     (if js_trim (newSkillInput st) \<noteq> [] then js_trim (newSkillInput st)
      else js_trim (selectedSuggestedSkill st))"

text \<open>Lines 378--389: the targets, and the custom name under \<open>Other\<close>.\<close>

definition custom_target :: "app_state \<Rightarrow> target" where
  "custom_target st =
     (if activeBroadCategory st = ''Other'' \<and> js_trim (newCustomBroadCategory st) \<noteq> [] then
        (let k = Str (''Other_Custom_'' @ js_trim (newCustomBroadCategory st))
         in \<lparr>targetBroadCategory = k, targetSubCategory = Str ''General'',
             selected = (if k \<notin> set (selectedBroadCategories st)
                         then selectedBroadCategories st @ [k]
                         else selectedBroadCategories st)\<rparr>)
      else \<lparr>targetBroadCategory = Str (activeBroadCategory st),
            targetSubCategory = Str (activeSubCategory st),
            selected = selectedBroadCategories st\<rparr>)"

text \<open>The condition of line 393.\<close>

definition needs_auto :: "app_state \<Rightarrow> target \<Rightarrow> bool" where
  "needs_auto st t \<longleftrightarrow>
     (\<not> truthy (targetBroadCategory t) \<or> \<not> truthy (targetSubCategory t)
        \<or> targetBroadCategory t = Str ''Other'')
     \<and> js_trim (newSkillInput st) \<noteq> [] \<and> \<not> loadingAutoCategorization st"

text \<open>Lines 378--467: the targets after the custom name and the auto-categorization.\<close>

definition resolve_target ::
  "(string \<Rightarrow> json option) \<Rightarrow> (nat \<Rightarrow> response) \<Rightarrow> app_state \<Rightarrow> target \<times> event list" where
  "resolve_target JSON_parse net st =
     (let t = custom_target st
      in if needs_auto st t then
           retry_loop (auto_attempt JSON_parse (selectedBroadCategories st))
             (auto_fallback (selectedBroadCategories st)) net 0 t []
         else (t, []))"

text \<open>
  The string-keyed properties of \<open>Object.prototype\<close>, which every plain object inherits:
  eleven functions and the accessor \<open>__proto__\<close>.
\<close>

definition Object_prototype_names :: "string list" where
  "Object_prototype_names =
     [''constructor'', ''__defineGetter__'', ''__defineSetter__'', ''hasOwnProperty'',
      ''__lookupGetter__'', ''__lookupSetter__'', ''isPrototypeOf'', ''propertyIsEnumerable'',
      ''toString'', ''valueOf'', ''__proto__'', ''toLocaleString'']"

text \<open>
  What \<open>skills[b]?.[s]\<close> evaluates to: \<open>undefined\<close> or \<open>null\<close>; a stored array of
  skills; a string; or any other value (a function, a number, an object that is not an
  array), which has no method \<open>includes\<close> and cannot be spread into an array.
\<close>

datatype looked_up = Nullish | Skills "string list" | Text string | NoIncludes

text \<open>
  \<open>skills[b]?.[s]\<close> on a store. When \<open>b\<close> is an own property, its value is a
  sub-category object: an own property \<open>s\<close> of it is an array of skills, and a name of
  \<open>Object.prototype\<close> that is not an own property reads the inherited function (for
  \<open>__proto__\<close> the prototype object). When \<open>b\<close> is not an own property but a name of
  \<open>Object.prototype\<close>, \<open>skills[b]\<close> is a built-in function (for \<open>__proto__\<close> the
  prototype object), and what its property \<open>s\<close> is depends on the engine: it is the
  parameter \<open>builtin b s\<close> (with \<open>NoIncludes\<close> also for a getter that throws a
  \<open>TypeError\<close>). Any other \<open>b\<close> reads \<open>undefined\<close>.
\<close>

definition lookup_skills ::
  "(string \<Rightarrow> string \<Rightarrow> looked_up) \<Rightarrow> skill_map \<Rightarrow> string \<Rightarrow> string \<Rightarrow> looked_up" where
  "lookup_skills builtin skills b s =
     (case obj_get skills b of
        Some subCats \<Rightarrow>
          (case obj_get subCats s of
             Some l \<Rightarrow> Skills l
           | None \<Rightarrow> if s \<in> set Object_prototype_names then NoIncludes else Nullish)
      | None \<Rightarrow> if b \<in> set Object_prototype_names then builtin b s else Nullish)"

text \<open>
  Line 481, \<open>skillsByCategory[b]?.[s]?.includes(skillToAdd)\<close>: \<open>None\<close> is the
  \<open>TypeError\<close> of calling \<open>includes\<close> where there is no such method; \<open>undefined\<close> counts
  as \<open>false\<close> in the \<open>if\<close>; on a string \<open>includes\<close> is the substring test.
\<close>

definition includes_skill :: "looked_up \<Rightarrow> string \<Rightarrow> bool option" where
  "includes_skill v skill =
     (case v of
        Nullish \<Rightarrow> Some False
      | Skills l \<Rightarrow> Some (skill \<in> set l)
      | Text t \<Rightarrow> Some (js_includes t skill)
      | NoIncludes \<Rightarrow> None)"

text \<open>
  Line 492, \<open>[...(prev[b]?.[s] || [])]\<close>: an array is copied, a string is spread into
  its characters, \<open>undefined\<close>, \<open>null\<close> and the empty string give the empty array, and
  \<open>None\<close> is the \<open>TypeError\<close> of spreading a value that is not iterable.
\<close>

definition spread_or_empty :: "looked_up \<Rightarrow> string list option" where
  "spread_or_empty v =
     (case v of
        Nullish \<Rightarrow> Some []
      | Skills l \<Rightarrow> Some l
      | Text t \<Rightarrow> Some (map (\<lambda>c. [c]) t)
      | NoIncludes \<Rightarrow> None)"

text \<open>
  The update of lines 488--494. \<open>{...(prev[b] || {})}\<close> copies the own properties of a
  stored sub-category object; a built-in function or prototype object has no enumerable
  own property, so it gives the empty object, as \<open>undefined\<close> does.
\<close>

definition add_to_map ::
  "(string \<Rightarrow> string \<Rightarrow> looked_up) \<Rightarrow> string \<Rightarrow> string \<Rightarrow> string \<Rightarrow> skill_map
     \<Rightarrow> skill_map option" where
  "add_to_map builtin b s skill prev =
     (let subCats = (case obj_get prev b of None \<Rightarrow> [] | Some sc \<Rightarrow> sc)
      in case spread_or_empty (lookup_skills builtin prev b s) of
           None \<Rightarrow> None
         | Some skills \<Rightarrow>
             Some (AList.update b (AList.update s (skills @ [skill]) subCats) prev))"

text \<open>
  The handler. \<open>loadingAutoCategorization\<close> is set and reset around the loop, which runs
  only when it is \<open>False\<close>, so the handler leaves it as it was. The duplicate test of
  line 481 reads the store of the closure and the updater of line 488 receives \<open>prev\<close>;
  both are the store of \<open>st\<close> here. A \<open>TypeError\<close> at line 481 ends the handler before
  the inputs are cleared; the selection queued before it stays. What line 481 accepts
  can be spread at line 492, so a \<open>TypeError\<close> of the updater is not reached.
\<close>

definition handleAddSkill ::
  "(string \<Rightarrow> string \<Rightarrow> looked_up) \<Rightarrow> (string \<Rightarrow> json option) \<Rightarrow> (nat \<Rightarrow> response) \<Rightarrow> app_state
     \<Rightarrow> app_state \<times> event list" where
  "handleAddSkill builtin JSON_parse net st =
     (if skillToAdd st = [] then (st, [])
      else
        (let (t, ev) = resolve_target JSON_parse net st;
             st1 = st\<lparr>selectedBroadCategories := selected t\<rparr>
         in if \<not> truthy (targetBroadCategory t) then
              (st1\<lparr>newSkillInput := [], selectedSuggestedSkill := []\<rparr>, ev @ [ConsoleWarn])
            else
              (let b = key_of (targetBroadCategory t);
                   s = (if \<not> truthy (targetSubCategory t) then ''General''
                        else key_of (targetSubCategory t))
               in case includes_skill (lookup_skills builtin (skillsByCategory st) b s)
                         (skillToAdd st) of
                    None \<Rightarrow> (st1, ev @ [UncaughtTypeError])
                  | Some True \<Rightarrow>
                      (st1\<lparr>newSkillInput := [], selectedSuggestedSkill := []\<rparr>,
                       ev @ [ConsoleWarn])
                  | Some False \<Rightarrow>
                      (case add_to_map builtin b s (skillToAdd st) (skillsByCategory st) of
                         None \<Rightarrow>
                           (st1\<lparr>newSkillInput := [], selectedSuggestedSkill := []\<rparr>,
                            ev @ [UncaughtTypeError])
                       | Some added \<Rightarrow>
                           (st1\<lparr>skillsByCategory := added,
                               newSkillInput := [], selectedSuggestedSkill := []\<rparr>, ev)))))"

section \<open>\<open>handleRemoveSkill\<close> (lines 501--527)\<close>

definition is_namespaced :: "string \<Rightarrow> bool" where
  "is_namespaced k \<longleftrightarrow> js_startsWith k ''Other_Custom_'' \<or> js_startsWith k ''Other_Auto_''"

text \<open>
  \<open>None\<close> is the \<open>TypeError\<close> of \<open>newBroadCatState[subCat].filter\<close> when the sub-category
  is not there. \<open>selectedBroadCategories\<close> is the value the handler was created with.
\<close>

definition handleRemoveSkill :: "string \<Rightarrow> string \<Rightarrow> string \<Rightarrow> app_state \<Rightarrow> app_state option" where
  "handleRemoveSkill broadCat subCat skillToRemove st =
     (let prev = skillsByCategory st;
          newBroadCatState = (case obj_get prev broadCat of None \<Rightarrow> [] | Some subCats \<Rightarrow> subCats)
      in case obj_get newBroadCatState subCat of
           None \<Rightarrow> None
         | Some skills \<Rightarrow>
             (let filtered = filter (\<lambda>skill. skill \<noteq> skillToRemove) skills;
                  newBroadCatState1 = AList.update subCat filtered newBroadCatState;
                  newBroadCatState2 =
                    (if length filtered = 0 then AList.delete subCat newBroadCatState1
                     else newBroadCatState1)
              in if length (obj_keys newBroadCatState2) = 0 then
                   Some (st\<lparr>skillsByCategory := AList.delete broadCat prev,
                           selectedBroadCategories :=
                             (if is_namespaced broadCat then
                                filter (\<lambda>c. c \<noteq> Str broadCat \<and> c \<noteq> Str ''Other'')
                                  (selectedBroadCategories st)
                              else if broadCat \<in> set broadCategories then
                                filter (\<lambda>c. c \<noteq> Str broadCat) (selectedBroadCategories st)
                              else selectedBroadCategories st)\<rparr>)
                 else Some (st\<lparr>skillsByCategory := AList.update broadCat newBroadCatState2 prev\<rparr>)))"

section \<open>\<open>handleBroadCategoryChange\<close> (lines 314--351)\<close>

text \<open>The update of \<open>skillsByCategory\<close> when a category is unchecked (lines 326--339).\<close>

definition cascade_delete :: "string \<Rightarrow> skill_map \<Rightarrow> skill_map" where
  "cascade_delete v prev =
     (let newState = AList.delete v prev
      in fold (\<lambda>key ns.
                 (let ns1 = (if js_startsWith key ''Other_Custom_'' \<and> js_includes key (''__'' @ v)
                             then AList.delete key ns else ns)
                  in if js_startsWith key ''Other_Auto_'' \<and> js_includes key (''__'' @ v)
                     then AList.delete key ns1 else ns1))
              (obj_keys newState) newState)"

definition handleBroadCategoryChange :: "string \<Rightarrow> bool \<Rightarrow> app_state \<Rightarrow> app_state" where
  "handleBroadCategoryChange v checked st =
     (let st1 = (if v \<in> set broadCategories \<or> v = ''Other'' then
                   st\<lparr>selectedBroadCategories :=
                        (if checked then selectedBroadCategories st @ [Str v]
                         else filter (\<lambda>cat. cat \<noteq> Str v) (selectedBroadCategories st))\<rparr>
                 else st)
      in if \<not> checked then
           (let st2 = st1\<lparr>skillsByCategory := cascade_delete v (skillsByCategory st1)\<rparr>
            in if activeBroadCategory st = v then
                 st2\<lparr>activeBroadCategory := [], activeSubCategory := [],
                     suggestedSubCategories := [], suggestedSpecificSkills := []\<rparr>
               else st2)
         else st1\<lparr>activeBroadCategory := v, activeSubCategory := [],
                  suggestedSpecificSkills := []\<rparr>)"

section \<open>Reference definitions for the statements\<close>

text \<open>The initial values of the \<open>useState\<close> hooks (lines 15--27).\<close>

definition initial_state :: app_state where
  "initial_state =
     \<lparr>selectedBroadCategories = [], skillsByCategory = [], newSkillInput = [],
      activeBroadCategory = [], activeSubCategory = [], newCustomBroadCategory = [],
      suggestedSubCategories = [], suggestedSpecificSkills = [],
      loadingSubCategories = False, loadingSpecificSkills = False,
      loadingAutoCategorization = False, selectedSuggestedSkill = []\<rparr>"

text \<open>
  The retry policy in the words of the specification: attempts \<open>1\<close> to \<open>k\<close> fail, each
  is logged, and attempt \<open>i + 1\<close> is followed by a wait of \<open>1000 * 2 ^ i\<close> milliseconds.
\<close>

definition backoff_events :: "nat \<Rightarrow> event list" where
  "backoff_events k =
     concat (map (\<lambda>i. [Fetch, ConsoleError (Suc i), Wait (1000 * 2 ^ i)]) [0..<k])"

text \<open>
  Lines 470--478: the keys under which \<open>handleAddSkill\<close> files the skill, \<open>None\<close> when
  the broad category is still missing and the add is rejected.
\<close>

definition target_keys :: "target \<Rightarrow> (string \<times> string) option" where
  "target_keys t =
     (if \<not> truthy (targetBroadCategory t) then None
      else Some (key_of (targetBroadCategory t),
                 if \<not> truthy (targetSubCategory t) then ''General''
                 else key_of (targetSubCategory t)))"

text \<open>The skills stored under a broad category and sub-category, none when nothing is stored.\<close>

definition skills_at :: "skill_map \<Rightarrow> string \<Rightarrow> string \<Rightarrow> string list" where
  "skills_at skills b s = (case get2 skills b s of None \<Rightarrow> [] | Some l \<Rightarrow> l)"

text \<open>The store with a skill appended to the sequence stored under \<open>b\<close> and \<open>s\<close>.\<close>

definition append_skill :: "string \<Rightarrow> string \<Rightarrow> string \<Rightarrow> skill_map \<Rightarrow> skill_map" where
  "append_skill b s skill prev =
     AList.update b
       (AList.update s (skills_at prev b s @ [skill])
          (case obj_get prev b of None \<Rightarrow> [] | Some sc \<Rightarrow> sc))
       prev"

text \<open>
  Line 481 and line 492 read what is stored: the lookup finds the stored sequence, or
  \<open>undefined\<close> when there is none, and nothing inherited.
\<close>

definition reads_own :: "(string \<Rightarrow> string \<Rightarrow> looked_up) \<Rightarrow> skill_map \<Rightarrow> string \<Rightarrow> string \<Rightarrow> bool" where
  "reads_own builtin skills b s \<longleftrightarrow>
     lookup_skills builtin skills b s =
       (case get2 skills b s of None \<Rightarrow> Nullish | Some l \<Rightarrow> Skills l)"

text \<open>
  A value for the parameter \<open>builtin\<close> in closed statements that do not consult it:
  the broad category is stored or is not a name of \<open>Object.prototype\<close>.
\<close>

definition no_builtin :: "string \<Rightarrow> string \<Rightarrow> looked_up" where
  "no_builtin b s = Nullish"

text \<open>An endpoint that cannot be reached, and a \<open>JSON.parse\<close> that always throws.\<close>

definition failing_net :: "nat \<Rightarrow> response" where
  "failing_net i = NetworkError"

definition unparsable :: "string \<Rightarrow> json option" where
  "unparsable s = None"

text \<open>A response of the endpoint whose first candidate has the text \<open>t\<close>.\<close>

definition text_response :: "string \<Rightarrow> response" where
  "text_response t =
     Response True (Some (ApiResult (Some [Candidate (Some (Content (Some [Part (Some t)])))])))"

section \<open>Lemmas on objects\<close>

lemma set_update_subset: "set (AList.update k v al) \<subseteq> insert (k, v) (set al)"
  by (induction al) auto

lemma set_delete_subset: "set (AList.delete k al) \<subseteq> set al"
  by (auto simp: AList.delete_eq)

lemma pruned_update:
  assumes "pruned acc" and "v \<noteq> []" and "\<forall>(s, l) \<in> set v. l \<noteq> []"
  shows "pruned (AList.update k v acc)"
proof -
  have "subCats \<noteq> [] \<and> (\<forall>(s, l) \<in> set subCats. l \<noteq> [])"
    if "(b, subCats) \<in> set (AList.update k v acc)" for b subCats
  proof -
    from that set_update_subset [of k v acc]
    have "(b, subCats) = (k, v) \<or> (b, subCats) \<in> set acc" by auto
    then show ?thesis
    proof
      assume "(b, subCats) = (k, v)"
      with assms(2,3) show ?thesis by simp
    next
      assume "(b, subCats) \<in> set acc"
      with assms(1) show ?thesis unfolding pruned_def by fast
    qed
  qed
  then show ?thesis unfolding pruned_def by fast
qed

lemma pruned_delete:
  assumes "pruned acc"
  shows "pruned (AList.delete k acc)"
  using assms set_delete_subset [of k acc] unfolding pruned_def by fast

section \<open>The cleaned copy is pruned and keeps the non-empty arrays it can hold\<close>
















section \<open>The retry loop\<close>

declare retry_loop.simps [simp del]

lemma retry_loop_fails:
  "a + k < maxAttempts \<Longrightarrow> \<forall>i<k. try_block s (net (a + i)) = None \<Longrightarrow>
   retry_loop try_block on_exhausted net a s ev =
   retry_loop try_block on_exhausted net (a + k) s
     (ev @ concat (map (\<lambda>i. [Fetch, ConsoleError (Suc i), Wait (1000 * 2 ^ i)]) [a..<a + k]))"
proof (induction k arbitrary: a ev)
  case 0
  then show ?case by simp
next
  case (Suc k)
  from Suc.prems have a: "a < maxAttempts" "Suc a < maxAttempts" "try_block s (net a) = None"
    by auto
  have step: "retry_loop try_block on_exhausted net a s ev =
      retry_loop try_block on_exhausted net (Suc a) s
        (ev @ [Fetch, ConsoleError (Suc a), Wait (1000 * 2 ^ a)])"
    using a by (subst retry_loop.simps) (simp add: baseDelay_def)
  have "\<forall>i<k. try_block s (net (Suc a + i)) = None"
    using Suc.prems(2) by (metis Suc_less_eq add_Suc_right add_Suc)
  with Suc.IH [of "Suc a"] Suc.prems(1)
  have ih: "retry_loop try_block on_exhausted net (Suc a) s
          (ev @ [Fetch, ConsoleError (Suc a), Wait (1000 * 2 ^ a)]) =
        retry_loop try_block on_exhausted net (Suc a + k) s
          ((ev @ [Fetch, ConsoleError (Suc a), Wait (1000 * 2 ^ a)]) @
            concat (map (\<lambda>i. [Fetch, ConsoleError (Suc i), Wait (1000 * 2 ^ i)]) [Suc a..<Suc a + k]))"
    by simp
  have u: "[a..<a + Suc k] = a # [Suc a..<a + Suc k]"
    by (subst upt_rec) simp
  have ev: "(ev @ [Fetch, ConsoleError (Suc a), Wait (1000 * 2 ^ a)]) @
            concat (map (\<lambda>i. [Fetch, ConsoleError (Suc i), Wait (1000 * 2 ^ i)]) [Suc a..<a + Suc k])
          = ev @ concat (map (\<lambda>i. [Fetch, ConsoleError (Suc i), Wait (1000 * 2 ^ i)]) [a..<a + Suc k])"
    by (subst u) simp
  have "retry_loop try_block on_exhausted net a s ev =
        retry_loop try_block on_exhausted net (Suc a + k) s
          ((ev @ [Fetch, ConsoleError (Suc a), Wait (1000 * 2 ^ a)]) @
            concat (map (\<lambda>i. [Fetch, ConsoleError (Suc i), Wait (1000 * 2 ^ i)]) [Suc a..<Suc a + k]))"
    using step ih by (rule trans)
  also have "Suc a + k = a + Suc k" by simp
  finally show ?case unfolding ev .
qed

lemma retry_loop_success:
  assumes "k < maxAttempts" and "\<forall>i<k. try_block s (net i) = None"
    and "try_block s (net k) = Some s'"
  shows "retry_loop try_block on_exhausted net 0 s [] = (s', backoff_events k @ [Fetch])"
proof -
  have "retry_loop try_block on_exhausted net 0 s [] =
        retry_loop try_block on_exhausted net k s (backoff_events k)"
    using retry_loop_fails [of 0 k try_block s net on_exhausted "[]"] assms(1,2)
    by (simp add: backoff_events_def)
  also have "\<dots> = (s', backoff_events k @ [Fetch])"
    using assms(1,3) by (subst retry_loop.simps) simp
  finally show ?thesis .
qed

lemma retry_loop_exhausted:
  assumes "\<forall>i<maxAttempts. try_block s (net i) = None"
  shows "retry_loop try_block on_exhausted net 0 s [] =
         (on_exhausted s, backoff_events 4 @ [Fetch, ConsoleError 5])"
proof -
  have "retry_loop try_block on_exhausted net 0 s [] =
        retry_loop try_block on_exhausted net 4 s (backoff_events 4)"
    using retry_loop_fails [of 0 4 try_block s net on_exhausted "[]"] assms
    by (simp add: backoff_events_def maxAttempts_def)
  also have "\<dots> = retry_loop try_block on_exhausted net 5 (on_exhausted s)
                     (backoff_events 4 @ [Fetch, ConsoleError 5])"
    using assms by (subst retry_loop.simps) (simp add: maxAttempts_def)
  also have "\<dots> = (on_exhausted s, backoff_events 4 @ [Fetch, ConsoleError 5])"
    by (subst retry_loop.simps) (simp add: maxAttempts_def)
  finally show ?thesis .
qed

lemma retry_loop_fetch_count:
  "count_list (snd (retry_loop try_block on_exhausted net a s ev)) Fetch
   \<le> count_list ev Fetch + (maxAttempts - a)"
proof (induction try_block on_exhausted net a s ev rule: retry_loop.induct)
  case (1 try_block on_exhausted net attempts s ev)
  show ?case
  proof (cases "attempts < maxAttempts")
    case False
    then show ?thesis by (subst retry_loop.simps) simp
  next
    case True
    show ?thesis
    proof (cases "try_block s (net attempts)")
      case (Some s')
      with True show ?thesis by (subst retry_loop.simps) simp
    next
      case None
      from "1.IH" [OF True None refl refl refl refl] True None
      show ?thesis
        by (subst retry_loop.simps) (auto simp: Let_def split: if_splits)
    qed
  qed
qed

lemma backoff_events_4:
  "backoff_events 4 = [Fetch, ConsoleError 1, Wait 1000, Fetch, ConsoleError 2, Wait 2000,
     Fetch, ConsoleError 3, Wait 4000, Fetch, ConsoleError 4, Wait 8000]"
  by (simp add: backoff_events_def upt_conv_Cons)

lemma fetchSubCategories_success:
  assumes "category \<noteq> []" and "category \<noteq> ''Other''" and "k < 5"
    and "\<forall>i<k. suggest_attempt (net i) = None" and "suggest_attempt (net k) = Some parsed"
  shows "fetchSubCategories net category st =
         (st\<lparr>suggestedSubCategories := parsed, loadingSubCategories := False\<rparr>,
          backoff_events k @ [Fetch])"
proof -
  let ?tb = "\<lambda>s r. map_option (\<lambda>parsed. s\<lparr>suggestedSubCategories := parsed\<rparr>) (suggest_attempt r)"
  have "retry_loop ?tb (\<lambda>s. s) net 0 (st\<lparr>loadingSubCategories := True\<rparr>) [] =
        (st\<lparr>loadingSubCategories := True, suggestedSubCategories := parsed\<rparr>,
         backoff_events k @ [Fetch])"
    using assms(3-5) by (intro retry_loop_success) (simp_all add: maxAttempts_def)
  with assms(1,2) show ?thesis by (simp add: fetchSubCategories_def)
qed

lemma fetchSubCategories_exhausted:
  assumes "category \<noteq> []" and "category \<noteq> ''Other''"
    and "\<forall>i<5. suggest_attempt (net i) = None"
  shows "fetchSubCategories net category st =
         (st\<lparr>loadingSubCategories := False\<rparr>, backoff_events 4 @ [Fetch, ConsoleError 5])"
proof -
  let ?tb = "\<lambda>s r. map_option (\<lambda>parsed. s\<lparr>suggestedSubCategories := parsed\<rparr>) (suggest_attempt r)"
  have "retry_loop ?tb (\<lambda>s. s) net 0 (st\<lparr>loadingSubCategories := True\<rparr>) [] =
        (st\<lparr>loadingSubCategories := True\<rparr>, backoff_events 4 @ [Fetch, ConsoleError 5])"
    using assms(3) by (intro retry_loop_exhausted) (simp add: maxAttempts_def)
  with assms(1,2) show ?thesis by (simp add: fetchSubCategories_def)
qed

lemma fetchSubCategories_fetch_count:
  "count_list (snd (fetchSubCategories net category st)) Fetch \<le> 5"
  using retry_loop_fetch_count [of
      "\<lambda>s r. map_option (\<lambda>parsed. s\<lparr>suggestedSubCategories := parsed\<rparr>) (suggest_attempt r)"
      "\<lambda>s. s" net 0 "st\<lparr>loadingSubCategories := True\<rparr>" "[]"]
  by (auto simp add: fetchSubCategories_def maxAttempts_def split: prod.splits)

lemma fetchSpecificSkills_success:
  assumes "broadCat \<noteq> []" and "subCat \<noteq> []" and "broadCat \<noteq> ''Other''" and "k < 5"
    and "\<forall>i<k. suggest_attempt (net i) = None" and "suggest_attempt (net k) = Some parsed"
  shows "fetchSpecificSkills net broadCat subCat st =
         (st\<lparr>suggestedSpecificSkills := parsed, loadingSpecificSkills := False\<rparr>,
          backoff_events k @ [Fetch])"
proof -
  let ?tb = "\<lambda>s r. map_option (\<lambda>parsed. s\<lparr>suggestedSpecificSkills := parsed\<rparr>) (suggest_attempt r)"
  have "retry_loop ?tb (\<lambda>s. s) net 0 (st\<lparr>loadingSpecificSkills := True\<rparr>) [] =
        (st\<lparr>loadingSpecificSkills := True, suggestedSpecificSkills := parsed\<rparr>,
         backoff_events k @ [Fetch])"
    using assms(4-6) by (intro retry_loop_success) (simp_all add: maxAttempts_def)
  with assms(1-3) show ?thesis by (simp add: fetchSpecificSkills_def)
qed

lemma fetchSpecificSkills_exhausted:
  assumes "broadCat \<noteq> []" and "subCat \<noteq> []" and "broadCat \<noteq> ''Other''"
    and "\<forall>i<5. suggest_attempt (net i) = None"
  shows "fetchSpecificSkills net broadCat subCat st =
         (st\<lparr>loadingSpecificSkills := False\<rparr>, backoff_events 4 @ [Fetch, ConsoleError 5])"
proof -
  let ?tb = "\<lambda>s r. map_option (\<lambda>parsed. s\<lparr>suggestedSpecificSkills := parsed\<rparr>) (suggest_attempt r)"
  have "retry_loop ?tb (\<lambda>s. s) net 0 (st\<lparr>loadingSpecificSkills := True\<rparr>) [] =
        (st\<lparr>loadingSpecificSkills := True\<rparr>, backoff_events 4 @ [Fetch, ConsoleError 5])"
    using assms(4) by (intro retry_loop_exhausted) (simp add: maxAttempts_def)
  with assms(1-3) show ?thesis by (simp add: fetchSpecificSkills_def)
qed

lemma fetchSpecificSkills_fetch_count:
  "count_list (snd (fetchSpecificSkills net broadCat subCat st)) Fetch \<le> 5"
  using retry_loop_fetch_count [of
      "\<lambda>s r. map_option (\<lambda>parsed. s\<lparr>suggestedSpecificSkills := parsed\<rparr>) (suggest_attempt r)"
      "\<lambda>s. s" net 0 "st\<lparr>loadingSpecificSkills := True\<rparr>" "[]"]
  by (auto simp add: fetchSpecificSkills_def maxAttempts_def split: prod.splits)

lemma resolve_target_success:
  assumes "needs_auto st (custom_target st)" and "k < 5"
    and "\<forall>i<k. auto_attempt JSON_parse (selectedBroadCategories st) (custom_target st) (net i) = None"
    and "auto_attempt JSON_parse (selectedBroadCategories st) (custom_target st) (net k) = Some t"
  shows "resolve_target JSON_parse net st = (t, backoff_events k @ [Fetch])"
  using assms retry_loop_success [of k "auto_attempt JSON_parse (selectedBroadCategories st)"
      "custom_target st" net t "auto_fallback (selectedBroadCategories st)"]
  by (simp add: resolve_target_def maxAttempts_def)

lemma resolve_target_exhausted:
  assumes "needs_auto st (custom_target st)"
    and "\<forall>i<5. auto_attempt JSON_parse (selectedBroadCategories st) (custom_target st) (net i) = None"
  shows "resolve_target JSON_parse net st =
         (auto_fallback (selectedBroadCategories st) (custom_target st),
          backoff_events 4 @ [Fetch, ConsoleError 5])"
  using assms retry_loop_exhausted [of "auto_attempt JSON_parse (selectedBroadCategories st)"
      "custom_target st" net "auto_fallback (selectedBroadCategories st)"]
  by (simp add: resolve_target_def maxAttempts_def)

lemma resolve_target_no_auto:
  "\<not> needs_auto st (custom_target st) \<Longrightarrow> resolve_target JSON_parse net st = (custom_target st, [])"
  by (simp add: resolve_target_def)

lemma resolve_target_fetch_count:
  "count_list (snd (resolve_target JSON_parse net st)) Fetch \<le> 5"
  using retry_loop_fetch_count [of "auto_attempt JSON_parse (selectedBroadCategories st)"
      "auto_fallback (selectedBroadCategories st)" net 0 "custom_target st" "[]"]
  by (simp add: resolve_target_def maxAttempts_def Let_def)

lemma handleAddSkill_events:
  "snd (handleAddSkill builtin JSON_parse net st) = [] \<or>
   snd (handleAddSkill builtin JSON_parse net st) = snd (resolve_target JSON_parse net st) \<or>
   snd (handleAddSkill builtin JSON_parse net st) = snd (resolve_target JSON_parse net st) @ [ConsoleWarn] \<or>
   snd (handleAddSkill builtin JSON_parse net st)
     = snd (resolve_target JSON_parse net st) @ [UncaughtTypeError]"
  by (simp add: handleAddSkill_def Let_def split: prod.splits option.splits bool.splits)

lemma handleAddSkill_fetch_count:
  "count_list (snd (handleAddSkill builtin JSON_parse net st)) Fetch \<le> 5"
  using handleAddSkill_events [of builtin JSON_parse net st] resolve_target_fetch_count [of JSON_parse net st]
  by auto


text \<open>
  What makes an attempt fail: the fetch rejects, the status is not a success, the body is
  not JSON, the candidates are missing or empty, or the first part has no text. For the
  auto-categorization also a text that \<open>JSON.parse\<close> rejects or parses to \<open>null\<close>.
\<close>

lemma attempt_fails:
  "suggest_attempt NetworkError = None"
  "suggest_attempt (Response False b) = None"
  "suggest_attempt (Response True None) = None"
  "suggest_attempt (Response True (Some (ApiResult None))) = None"
  "suggest_attempt (Response True (Some (ApiResult (Some [])))) = None"
  "suggest_attempt (text_response t) = Some (parse_suggestions t)"
  "auto_attempt JSON_parse sel tgt NetworkError = None"
  "auto_attempt JSON_parse sel tgt (Response False b) = None"
  "auto_attempt JSON_parse sel tgt (Response True None) = None"
  "auto_attempt JSON_parse sel tgt (Response True (Some (ApiResult None))) = None"
  "auto_attempt JSON_parse sel tgt (Response True (Some (ApiResult (Some [])))) = None"
  "JSON_parse t = None \<Longrightarrow> auto_attempt JSON_parse sel tgt (text_response t) = None"
  "JSON_parse t = Some JsonNull \<Longrightarrow> auto_attempt JSON_parse sel tgt (text_response t) = None"
  by (simp_all add: suggest_attempt_def auto_attempt_def response_text_def text_response_def)

text \<open>
  C1. Each of the three suggestion operations makes at most five fetches. When the
  attempts before attempt \<open>k + 1\<close> fail and that attempt succeeds (\<open>k < 5\<close>), the
  operation has fetched \<open>k + 1\<close> times, has waited \<open>1000 * 2 ^ i\<close> milliseconds after
  the failed attempt \<open>i + 1\<close> and before the next one, ends with the fetch that
  succeeded and gives what that attempt parsed: the suggestion list for
  \<open>fetchSubCategories\<close> and \<open>fetchSpecificSkills\<close>, the targets for the
  auto-categorization of \<open>handleAddSkill\<close>. When all five attempts fail, the waits are
  1000, 2000, 4000 and 8000 milliseconds after the attempts 1 to 4, and nothing is
  waited for after the fifth.
\<close>

theorem retry_policy:
  "(count_list (snd (fetchSubCategories net category st)) Fetch \<le> 5
     \<and> count_list (snd (fetchSpecificSkills net broadCat subCat st)) Fetch \<le> 5
     \<and> count_list (snd (handleAddSkill builtin JSON_parse net st)) Fetch \<le> 5)
   \<and> (\<forall>k<5. \<forall>parsed.
          (\<forall>i<k. suggest_attempt (net i) = None) \<and> suggest_attempt (net k) = Some parsed \<longrightarrow>
          (category \<noteq> [] \<and> category \<noteq> ''Other'' \<longrightarrow>
             fetchSubCategories net category st =
               (st\<lparr>suggestedSubCategories := parsed, loadingSubCategories := False\<rparr>,
                backoff_events k @ [Fetch]))
          \<and> (broadCat \<noteq> [] \<and> subCat \<noteq> [] \<and> broadCat \<noteq> ''Other'' \<longrightarrow>
             fetchSpecificSkills net broadCat subCat st =
               (st\<lparr>suggestedSpecificSkills := parsed, loadingSpecificSkills := False\<rparr>,
                backoff_events k @ [Fetch])))
   \<and> (\<forall>k<5. \<forall>t.
          needs_auto st (custom_target st)
          \<and> (\<forall>i<k. auto_attempt JSON_parse (selectedBroadCategories st) (custom_target st) (net i)
                     = None)
          \<and> auto_attempt JSON_parse (selectedBroadCategories st) (custom_target st) (net k) = Some t
          \<longrightarrow> resolve_target JSON_parse net st = (t, backoff_events k @ [Fetch]))
   \<and> ((\<forall>i<5. suggest_attempt (net i) = None) \<longrightarrow>
          (category \<noteq> [] \<and> category \<noteq> ''Other'' \<longrightarrow>
             snd (fetchSubCategories net category st) =
               [Fetch, ConsoleError 1, Wait 1000, Fetch, ConsoleError 2, Wait 2000,
                Fetch, ConsoleError 3, Wait 4000, Fetch, ConsoleError 4, Wait 8000,
                Fetch, ConsoleError 5])
          \<and> (broadCat \<noteq> [] \<and> subCat \<noteq> [] \<and> broadCat \<noteq> ''Other'' \<longrightarrow>
             snd (fetchSpecificSkills net broadCat subCat st) =
               [Fetch, ConsoleError 1, Wait 1000, Fetch, ConsoleError 2, Wait 2000,
                Fetch, ConsoleError 3, Wait 4000, Fetch, ConsoleError 4, Wait 8000,
                Fetch, ConsoleError 5]))
   \<and> (needs_auto st (custom_target st)
        \<and> (\<forall>i<5. auto_attempt JSON_parse (selectedBroadCategories st) (custom_target st) (net i)
                   = None)
        \<longrightarrow> snd (resolve_target JSON_parse net st) =
               [Fetch, ConsoleError 1, Wait 1000, Fetch, ConsoleError 2, Wait 2000,
                Fetch, ConsoleError 3, Wait 4000, Fetch, ConsoleError 4, Wait 8000,
                Fetch, ConsoleError 5])"
proof (intro conjI allI impI)
  show "count_list (snd (fetchSubCategories net category st)) Fetch \<le> 5"
    by (rule fetchSubCategories_fetch_count)
  show "count_list (snd (fetchSpecificSkills net broadCat subCat st)) Fetch \<le> 5"
    by (rule fetchSpecificSkills_fetch_count)
  show "count_list (snd (handleAddSkill builtin JSON_parse net st)) Fetch \<le> 5"
    by (rule handleAddSkill_fetch_count)
next
  fix k parsed
  assume "k < 5"
    and "(\<forall>i<k. suggest_attempt (net i) = None) \<and> suggest_attempt (net k) = Some parsed"
    and "category \<noteq> [] \<and> category \<noteq> ''Other''"
  then show "fetchSubCategories net category st =
      (st\<lparr>suggestedSubCategories := parsed, loadingSubCategories := False\<rparr>,
       backoff_events k @ [Fetch])"
    by (intro fetchSubCategories_success) simp_all
next
  fix k parsed
  assume "k < 5"
    and "(\<forall>i<k. suggest_attempt (net i) = None) \<and> suggest_attempt (net k) = Some parsed"
    and "broadCat \<noteq> [] \<and> subCat \<noteq> [] \<and> broadCat \<noteq> ''Other''"
  then show "fetchSpecificSkills net broadCat subCat st =
      (st\<lparr>suggestedSpecificSkills := parsed, loadingSpecificSkills := False\<rparr>,
       backoff_events k @ [Fetch])"
    by (intro fetchSpecificSkills_success) simp_all
next
  fix k t
  assume "k < 5"
    and "needs_auto st (custom_target st)
          \<and> (\<forall>i<k. auto_attempt JSON_parse (selectedBroadCategories st) (custom_target st) (net i)
                     = None)
          \<and> auto_attempt JSON_parse (selectedBroadCategories st) (custom_target st) (net k) = Some t"
  then show "resolve_target JSON_parse net st = (t, backoff_events k @ [Fetch])"
    by (intro resolve_target_success) simp_all
next
  assume "\<forall>i<5. suggest_attempt (net i) = None"
    and "category \<noteq> [] \<and> category \<noteq> ''Other''"
  then show "snd (fetchSubCategories net category st) =
               [Fetch, ConsoleError 1, Wait 1000, Fetch, ConsoleError 2, Wait 2000,
                Fetch, ConsoleError 3, Wait 4000, Fetch, ConsoleError 4, Wait 8000,
                Fetch, ConsoleError 5]"
    by (simp add: fetchSubCategories_exhausted backoff_events_4)
next
  assume "\<forall>i<5. suggest_attempt (net i) = None"
    and "broadCat \<noteq> [] \<and> subCat \<noteq> [] \<and> broadCat \<noteq> ''Other''"
  then show "snd (fetchSpecificSkills net broadCat subCat st) =
               [Fetch, ConsoleError 1, Wait 1000, Fetch, ConsoleError 2, Wait 2000,
                Fetch, ConsoleError 3, Wait 4000, Fetch, ConsoleError 4, Wait 8000,
                Fetch, ConsoleError 5]"
    by (simp add: fetchSpecificSkills_exhausted backoff_events_4)
next
  assume "needs_auto st (custom_target st)
        \<and> (\<forall>i<5. auto_attempt JSON_parse (selectedBroadCategories st) (custom_target st) (net i)
                   = None)"
  then show "snd (resolve_target JSON_parse net st) =
               [Fetch, ConsoleError 1, Wait 1000, Fetch, ConsoleError 2, Wait 2000,
                Fetch, ConsoleError 3, Wait 4000, Fetch, ConsoleError 4, Wait 8000,
                Fetch, ConsoleError 5]"
    by (simp add: resolve_target_exhausted backoff_events_4)
qed


theorem retry_policy_witness:
  "fetchSubCategories (\<lambda>i. if i < 4 then NetworkError else text_response ''Web, Data'')
     ''Tech & Digital'' (initial_state\<lparr>newSkillInput := ''React''\<rparr>) =
     (initial_state\<lparr>newSkillInput := ''React'', suggestedSubCategories := [''Web'', ''Data'']\<rparr>,
      [Fetch, ConsoleError 1, Wait 1000, Fetch, ConsoleError 2, Wait 2000,
       Fetch, ConsoleError 3, Wait 4000, Fetch, ConsoleError 4, Wait 8000, Fetch])
   \<and> fst (resolve_target
            (\<lambda>s. Some (JsonObject [(''broadCategory'', ''Tech & Digital''), (''subCategory'', s)]))
            (\<lambda>i. if i < 4 then NetworkError else text_response ''Web, Data'')
            (initial_state\<lparr>newSkillInput := ''React''\<rparr>)) =
       \<lparr>targetBroadCategory = Str ''Tech & Digital'', targetSubCategory = Str ''Web, Data'',
        selected = [Str ''Tech & Digital'']\<rparr>
   \<and> snd (fetchSpecificSkills (\<lambda>i. Response False None) ''Tech & Digital'' ''Web''
            (initial_state\<lparr>newSkillInput := ''React''\<rparr>)) =
       [Fetch, ConsoleError 1, Wait 1000, Fetch, ConsoleError 2, Wait 2000,
        Fetch, ConsoleError 3, Wait 4000, Fetch, ConsoleError 4, Wait 8000,
        Fetch, ConsoleError 5]
   \<and> snd (resolve_target (\<lambda>s. None) (\<lambda>i. Response False None)
            (initial_state\<lparr>newSkillInput := ''React''\<rparr>)) =
       [Fetch, ConsoleError 1, Wait 1000, Fetch, ConsoleError 2, Wait 2000,
        Fetch, ConsoleError 3, Wait 4000, Fetch, ConsoleError 4, Wait 8000,
        Fetch, ConsoleError 5]"
proof -
  let ?net = "\<lambda>i::nat. if i < 4 then NetworkError else text_response ''Web, Data''"
  let ?bad = "\<lambda>i::nat. Response False None"
  let ?st = "initial_state\<lparr>newSkillInput := ''React''\<rparr>"
  let ?jp = "\<lambda>s. Some (JsonObject [(''broadCategory'', ''Tech & Digital''), (''subCategory'', s)])"
  let ?none = "\<lambda>s::string. None :: json option"
  let ?t = "\<lparr>targetBroadCategory = Str ''Tech & Digital'', targetSubCategory = Str ''Web, Data'',
        selected = [Str ''Tech & Digital'']\<rparr>"
  note ok = retry_policy [of ?net "''Tech & Digital''" ?st "''Tech & Digital''" "''Web''" no_builtin ?jp]
  note ko = retry_policy [of ?bad "''Tech & Digital''" ?st "''Tech & Digital''" "''Web''" no_builtin ?none]
  have parsed: "(\<forall>i<4. suggest_attempt (?net i) = None)
      \<and> suggest_attempt (?net 4) = Some [''Web'', ''Data'']"
    by (simp add: suggest_attempt_def text_response_def response_text_def parse_suggestions_def
        js_trim_def is_space_def)
  have guard: "''Tech & Digital'' \<noteq> [] \<and> ''Tech & Digital'' \<noteq> ''Other''"
    by simp
  have auto: "needs_auto ?st (custom_target ?st)"
    by (simp add: needs_auto_def custom_target_def initial_state_def truthy_def js_trim_def
        is_space_def)
  have tried: "(\<forall>i<4. auto_attempt ?jp (selectedBroadCategories ?st) (custom_target ?st) (?net i)
                  = None)
      \<and> auto_attempt ?jp (selectedBroadCategories ?st) (custom_target ?st) (?net 4) = Some ?t"
    by (simp add: auto_attempt_def text_response_def response_text_def custom_target_def
        initial_state_def json_field_def obj_get_def Let_def)
  have failed: "\<forall>i<5. suggest_attempt (?bad i) = None"
    by (simp add: suggest_attempt_def)
  have failed_auto:
    "\<forall>i<5. auto_attempt ?none (selectedBroadCategories ?st) (custom_target ?st) (?bad i) = None"
    by (simp add: auto_attempt_def)
  have guard2: "''Tech & Digital'' \<noteq> [] \<and> ''Web'' \<noteq> [] \<and> ''Tech & Digital'' \<noteq> ''Other''"
    by simp
  from ok [THEN conjunct2, THEN conjunct1, rule_format, of 4 "[''Web'', ''Data'']"] parsed guard
  have 1: "fetchSubCategories ?net ''Tech & Digital'' ?st =
      (?st\<lparr>suggestedSubCategories := [''Web'', ''Data''], loadingSubCategories := False\<rparr>,
       backoff_events 4 @ [Fetch])"
    by simp
  from ok [THEN conjunct2, THEN conjunct2, THEN conjunct1, rule_format, of 4 ?t] auto tried
  have 2: "resolve_target ?jp ?net ?st = (?t, backoff_events 4 @ [Fetch])"
    by simp
  from ko failed guard2
  have 3: "snd (fetchSpecificSkills ?bad ''Tech & Digital'' ''Web'' ?st) =
       [Fetch, ConsoleError 1, Wait 1000, Fetch, ConsoleError 2, Wait 2000,
        Fetch, ConsoleError 3, Wait 4000, Fetch, ConsoleError 4, Wait 8000,
        Fetch, ConsoleError 5]"
    by blast
  from ko auto failed_auto
  have 4: "snd (resolve_target ?none ?bad ?st) =
       [Fetch, ConsoleError 1, Wait 1000, Fetch, ConsoleError 2, Wait 2000,
        Fetch, ConsoleError 3, Wait 4000, Fetch, ConsoleError 4, Wait 8000,
        Fetch, ConsoleError 5]"
    by blast
  from 1 2 3 4 show ?thesis
    by (simp add: backoff_events_4 initial_state_def)
qed

section \<open>When every attempt fails\<close>

text \<open>
  C4 (as amended). When all five attempts of \<open>fetchSubCategories\<close> or of
  \<open>fetchSpecificSkills\<close> fail, the operation has fetched five times and leaves its
  suggestion list as it was before the call: the loop ends without calling the setter,
  and only the loading flag is reset. The list is empty afterwards exactly when it was
  empty before.
\<close>

theorem exhausted_suggestions_unchanged:
  "(\<forall>i<5. suggest_attempt (net i) = None) \<longrightarrow>
     (category \<noteq> [] \<and> category \<noteq> ''Other'' \<longrightarrow>
        fst (fetchSubCategories net category st) = st\<lparr>loadingSubCategories := False\<rparr>
        \<and> suggestedSubCategories (fst (fetchSubCategories net category st))
            = suggestedSubCategories st
        \<and> count_list (snd (fetchSubCategories net category st)) Fetch = 5)
     \<and> (broadCat \<noteq> [] \<and> subCat \<noteq> [] \<and> broadCat \<noteq> ''Other'' \<longrightarrow>
        fst (fetchSpecificSkills net broadCat subCat st) = st\<lparr>loadingSpecificSkills := False\<rparr>
        \<and> suggestedSpecificSkills (fst (fetchSpecificSkills net broadCat subCat st))
            = suggestedSpecificSkills st
        \<and> count_list (snd (fetchSpecificSkills net broadCat subCat st)) Fetch = 5)"
  by (simp add: fetchSubCategories_exhausted fetchSpecificSkills_exhausted backoff_events_4)

theorem exhausted_suggestions_unchanged_witness:
  "suggestedSubCategories (fst (fetchSubCategories (\<lambda>i. Response False None) ''Tech & Digital''
      initial_state)) = []
   \<and> suggestedSpecificSkills (fst (fetchSpecificSkills (\<lambda>i. Response False None)
        ''Tech & Digital'' ''Web'' (initial_state\<lparr>suggestedSpecificSkills := [''Mixing'']\<rparr>)))
       = [''Mixing'']"
proof -
  have failed: "\<forall>i<5. suggest_attempt ((\<lambda>i::nat. Response False None) i) = None"
    by (simp add: suggest_attempt_def)
  have g1: "''Tech & Digital'' \<noteq> [] \<and> ''Tech & Digital'' \<noteq> ''Other''"
    by simp
  have g2: "''Tech & Digital'' \<noteq> [] \<and> ''Web'' \<noteq> [] \<and> ''Tech & Digital'' \<noteq> ''Other''"
    by simp
  from exhausted_suggestions_unchanged [of "\<lambda>i. Response False None" "''Tech & Digital''"
      initial_state "''Tech & Digital''" "''Web''"] failed g1
  have 1: "suggestedSubCategories (fst (fetchSubCategories (\<lambda>i. Response False None)
      ''Tech & Digital'' initial_state)) = suggestedSubCategories initial_state"
    by blast
  from exhausted_suggestions_unchanged [of "\<lambda>i. Response False None" "''Tech & Digital''"
      "initial_state\<lparr>suggestedSpecificSkills := [''Mixing'']\<rparr>" "''Tech & Digital''" "''Web''"]
    failed g2
  have 2: "suggestedSpecificSkills (fst (fetchSpecificSkills (\<lambda>i. Response False None)
        ''Tech & Digital'' ''Web'' (initial_state\<lparr>suggestedSpecificSkills := [''Mixing'']\<rparr>)))
       = suggestedSpecificSkills (initial_state\<lparr>suggestedSpecificSkills := [''Mixing'']\<rparr>)"
    by blast
  from 1 2 show ?thesis by (simp add: initial_state_def)
qed

text \<open>
  C4 as stated fails: with the suggestions of an earlier category in the state, five
  failed attempts for the next category leave those suggestions in place.
\<close>

theorem exhausted_suggestions_counterexample:
  "suggest_attempt (failing_net 0) = None \<and> suggest_attempt (failing_net 1) = None
   \<and> suggest_attempt (failing_net 2) = None \<and> suggest_attempt (failing_net 3) = None
   \<and> suggest_attempt (failing_net 4) = None
   \<and> suggestedSubCategories (fst (fetchSubCategories failing_net ''Tech & Digital''
        (initial_state\<lparr>suggestedSubCategories := [''Graphic Design'']\<rparr>)))
       = [''Graphic Design'']"
proof -
  have f: "suggest_attempt (failing_net i) = None" for i
    by (simp add: suggest_attempt_def failing_net_def)
  then have "\<forall>i<5. suggest_attempt (failing_net i) = None"
    by simp
  then have "fetchSubCategories failing_net ''Tech & Digital''
        (initial_state\<lparr>suggestedSubCategories := [''Graphic Design'']\<rparr>) =
      (initial_state\<lparr>suggestedSubCategories := [''Graphic Design''],
         loadingSubCategories := False\<rparr>, backoff_events 4 @ [Fetch, ConsoleError 5])"
    by (intro fetchSubCategories_exhausted) simp_all
  then show ?thesis by (simp add: f)
qed

section \<open>Lemmas on \<open>handleAddSkill\<close>\<close>

lemma get2_append_skill_same: "get2 (append_skill b s k m) b s = Some (skills_at m b s @ [k])"
  by (simp add: get2_def append_skill_def obj_get_def update_conv')

lemma get2_append_skill_other:
  "b' \<noteq> b \<or> s' \<noteq> s \<Longrightarrow> get2 (append_skill b s k m) b' s' = get2 m b' s'"
  by (auto simp add: get2_def append_skill_def obj_get_def update_conv' split: option.splits)

lemma skills_at_append_skill_same: "skills_at (append_skill b s k m) b s = skills_at m b s @ [k]"
  by (simp add: skills_at_def [of "append_skill b s k m"] get2_append_skill_same)

lemma reads_own_stored: "get2 m b s = Some l \<Longrightarrow> reads_own builtin m b s"
  by (auto simp add: reads_own_def lookup_skills_def get2_def split: option.splits)

lemma reads_own_plain:
  "b \<notin> set Object_prototype_names \<Longrightarrow> s \<notin> set Object_prototype_names \<Longrightarrow> reads_own builtin m b s"
  by (auto simp add: reads_own_def lookup_skills_def get2_def split: option.splits)

lemma General_plain: "''General'' \<notin> set Object_prototype_names"
  by (simp add: Object_prototype_names_def)

lemma Other_plain: "''Other_'' @ name \<notin> set Object_prototype_names"
  by (simp add: Object_prototype_names_def)

lemma reads_own_includes:
  "reads_own builtin m b s \<Longrightarrow>
   includes_skill (lookup_skills builtin m b s) k = Some (k \<in> set (skills_at m b s))"
  by (simp add: reads_own_def includes_skill_def skills_at_def split: option.splits)

lemma reads_own_add:
  "reads_own builtin m b s \<Longrightarrow> add_to_map builtin b s k m = Some (append_skill b s k m)"
  by (simp add: reads_own_def add_to_map_def append_skill_def spread_or_empty_def skills_at_def
      split: option.splits)

lemma includes_then_spread:
  "includes_skill v k \<noteq> None \<Longrightarrow> spread_or_empty v \<noteq> None"
  by (cases v) (simp_all add: includes_skill_def spread_or_empty_def)

lemma handleAddSkill_alt:
  "handleAddSkill builtin JSON_parse net st =
     (if skillToAdd st = [] then (st, [])
      else
        (let t = fst (resolve_target JSON_parse net st);
             ev = snd (resolve_target JSON_parse net st);
             st1 = st\<lparr>selectedBroadCategories := selected t\<rparr>
         in case target_keys t of
              None \<Rightarrow> (st1\<lparr>newSkillInput := [], selectedSuggestedSkill := []\<rparr>, ev @ [ConsoleWarn])
            | Some (b, s) \<Rightarrow>
                (case includes_skill (lookup_skills builtin (skillsByCategory st) b s)
                        (skillToAdd st) of
                   None \<Rightarrow> (st1, ev @ [UncaughtTypeError])
                 | Some True \<Rightarrow>
                     (st1\<lparr>newSkillInput := [], selectedSuggestedSkill := []\<rparr>, ev @ [ConsoleWarn])
                 | Some False \<Rightarrow>
                     (case add_to_map builtin b s (skillToAdd st) (skillsByCategory st) of
                        None \<Rightarrow>
                          (st1\<lparr>newSkillInput := [], selectedSuggestedSkill := []\<rparr>,
                           ev @ [UncaughtTypeError])
                      | Some added \<Rightarrow>
                          (st1\<lparr>skillsByCategory := added,
                              newSkillInput := [], selectedSuggestedSkill := []\<rparr>, ev)))))"
  by (cases "truthy (targetSubCategory (fst (resolve_target JSON_parse net st)))")
    (simp_all add: handleAddSkill_def target_keys_def Let_def case_prod_beta
      split: option.splits bool.splits)

lemma handleAddSkill_rejected:
  assumes "skillToAdd st \<noteq> []" and "target_keys (fst (resolve_target JSON_parse net st)) = None"
  shows "handleAddSkill builtin JSON_parse net st =
         (st\<lparr>selectedBroadCategories := selected (fst (resolve_target JSON_parse net st)),
             newSkillInput := [], selectedSuggestedSkill := []\<rparr>,
          snd (resolve_target JSON_parse net st) @ [ConsoleWarn])"
  using assms by (simp add: handleAddSkill_alt)


lemma handleAddSkill_duplicate:
  assumes "skillToAdd st \<noteq> []"
    and "target_keys (fst (resolve_target JSON_parse net st)) = Some (b, s)"
    and "skillToAdd st \<in> set (skills_at (skillsByCategory st) b s)"
  shows "handleAddSkill builtin JSON_parse net st =
         (st\<lparr>selectedBroadCategories := selected (fst (resolve_target JSON_parse net st)),
             newSkillInput := [], selectedSuggestedSkill := []\<rparr>,
          snd (resolve_target JSON_parse net st) @ [ConsoleWarn])"
proof -
  from assms(3) obtain l where "get2 (skillsByCategory st) b s = Some l"
    by (cases "get2 (skillsByCategory st) b s") (auto simp: skills_at_def)
  then have "reads_own builtin (skillsByCategory st) b s"
    by (rule reads_own_stored)
  from reads_own_includes [OF this, of "skillToAdd st"] assms show ?thesis
    by (simp add: handleAddSkill_alt)
qed

lemma handleAddSkill_added:
  assumes "skillToAdd st \<noteq> []"
    and "target_keys (fst (resolve_target JSON_parse net st)) = Some (b, s)"
    and "reads_own builtin (skillsByCategory st) b s"
    and "skillToAdd st \<notin> set (skills_at (skillsByCategory st) b s)"
  shows "handleAddSkill builtin JSON_parse net st =
         (st\<lparr>selectedBroadCategories := selected (fst (resolve_target JSON_parse net st)),
             skillsByCategory := append_skill b s (skillToAdd st) (skillsByCategory st),
             newSkillInput := [], selectedSuggestedSkill := []\<rparr>,
          snd (resolve_target JSON_parse net st))"
  using assms reads_own_includes [OF assms(3), of "skillToAdd st"]
    reads_own_add [OF assms(3), of "skillToAdd st"]
  by (simp add: handleAddSkill_alt)

lemma handleAddSkill_filed:
  assumes "skillToAdd st \<noteq> []"
    and "target_keys (fst (resolve_target JSON_parse net st)) = Some (b, s)"
    and "reads_own builtin (skillsByCategory st) b s"
  shows "skillToAdd st
    \<in> set (skills_at (skillsByCategory (fst (handleAddSkill builtin JSON_parse net st))) b s)"
proof (cases "skillToAdd st \<in> set (skills_at (skillsByCategory st) b s)")
  case True
  with assms show ?thesis by (simp add: handleAddSkill_duplicate)
next
  case False
  with assms show ?thesis by (simp add: handleAddSkill_added skills_at_append_skill_same)
qed

lemma handleAddSkill_selected:
  assumes "skillToAdd st \<noteq> []"
  shows "selectedBroadCategories (fst (handleAddSkill builtin JSON_parse net st)) =
         selected (fst (resolve_target JSON_parse net st))"
  using assms
  by (simp add: handleAddSkill_alt Let_def split: option.splits bool.splits prod.splits)

lemma needs_auto_custom_target:
  assumes "needs_auto st (custom_target st)"
  shows "custom_target st =
         \<lparr>targetBroadCategory = Str (activeBroadCategory st),
          targetSubCategory = Str (activeSubCategory st),
          selected = selectedBroadCategories st\<rparr>"
  using assms
  by (auto simp add: needs_auto_def custom_target_def truthy_def Let_def split: if_splits)

section \<open>Auto-categorization when every attempt fails\<close>

text \<open>
  C5 (as amended). When the auto-categorization of \<open>handleAddSkill\<close> runs and all five
  attempts fail, the targets become the broad-category key \<open>Other_Auto_Uncategorized\<close>
  and the sub-category \<open>General\<close>; the skill is then filed under these two keys, and
  \<open>Other\<close> is added to the selected broad categories unless it is there already.
\<close>

theorem auto_categorize_exhausted:
  "needs_auto st (custom_target st)
   \<and> (\<forall>i<5. auto_attempt JSON_parse (selectedBroadCategories st) (custom_target st) (net i) = None)
   \<longrightarrow>
     targetBroadCategory (fst (resolve_target JSON_parse net st)) = Str ''Other_Auto_Uncategorized''
     \<and> targetSubCategory (fst (resolve_target JSON_parse net st)) = Str ''General''
     \<and> target_keys (fst (resolve_target JSON_parse net st))
         = Some (''Other_Auto_Uncategorized'', ''General'')
     \<and> skillToAdd st
         \<in> set (skills_at (skillsByCategory (fst (handleAddSkill builtin JSON_parse net st)))
                  ''Other_Auto_Uncategorized'' ''General'')
     \<and> selectedBroadCategories (fst (handleAddSkill builtin JSON_parse net st)) =
         (if Str ''Other'' \<in> set (selectedBroadCategories st) then selectedBroadCategories st
          else selectedBroadCategories st @ [Str ''Other''])"
proof (intro impI)
  assume a: "needs_auto st (custom_target st)
   \<and> (\<forall>i<5. auto_attempt JSON_parse (selectedBroadCategories st) (custom_target st) (net i) = None)"
  then have r: "fst (resolve_target JSON_parse net st) =
      auto_fallback (selectedBroadCategories st) (custom_target st)"
    by (simp add: resolve_target_exhausted)
  from a have "custom_target st =
         \<lparr>targetBroadCategory = Str (activeBroadCategory st),
          targetSubCategory = Str (activeSubCategory st),
          selected = selectedBroadCategories st\<rparr>"
    by (intro needs_auto_custom_target) simp
  then have ct: "selected (custom_target st) = selectedBroadCategories st"
    by simp
  from a have sk: "skillToAdd st \<noteq> []"
    by (simp add: needs_auto_def skillToAdd_def)
  have tk: "target_keys (fst (resolve_target JSON_parse net st))
         = Some (''Other_Auto_Uncategorized'', ''General'')"
    by (simp add: r auto_fallback_def target_keys_def truthy_def key_of_def)
  have own: "reads_own builtin (skillsByCategory st) ''Other_Auto_Uncategorized'' ''General''"
    using Other_plain [of "''Auto_Uncategorized''"] General_plain
    by (intro reads_own_plain) simp_all
  show "targetBroadCategory (fst (resolve_target JSON_parse net st)) = Str ''Other_Auto_Uncategorized''
     \<and> targetSubCategory (fst (resolve_target JSON_parse net st)) = Str ''General''
     \<and> target_keys (fst (resolve_target JSON_parse net st))
         = Some (''Other_Auto_Uncategorized'', ''General'')
     \<and> skillToAdd st
         \<in> set (skills_at (skillsByCategory (fst (handleAddSkill builtin JSON_parse net st)))
                  ''Other_Auto_Uncategorized'' ''General'')
     \<and> selectedBroadCategories (fst (handleAddSkill builtin JSON_parse net st)) =
         (if Str ''Other'' \<in> set (selectedBroadCategories st) then selectedBroadCategories st
          else selectedBroadCategories st @ [Str ''Other''])"
  proof (intro conjI)
    show "targetBroadCategory (fst (resolve_target JSON_parse net st)) = Str ''Other_Auto_Uncategorized''"
      by (simp add: r auto_fallback_def)
    show "targetSubCategory (fst (resolve_target JSON_parse net st)) = Str ''General''"
      by (simp add: r auto_fallback_def)
    show "target_keys (fst (resolve_target JSON_parse net st))
         = Some (''Other_Auto_Uncategorized'', ''General'')"
      by (rule tk)
    show "skillToAdd st
         \<in> set (skills_at (skillsByCategory (fst (handleAddSkill builtin JSON_parse net st)))
                  ''Other_Auto_Uncategorized'' ''General'')"
      using sk tk own by (rule handleAddSkill_filed)
    show "selectedBroadCategories (fst (handleAddSkill builtin JSON_parse net st)) =
         (if Str ''Other'' \<in> set (selectedBroadCategories st) then selectedBroadCategories st
          else selectedBroadCategories st @ [Str ''Other''])"
      using sk by (simp add: handleAddSkill_selected r auto_fallback_def ct)
  qed
qed

theorem auto_categorize_exhausted_witness:
  "fst (handleAddSkill no_builtin (\<lambda>s. None) (\<lambda>i. NetworkError) (initial_state\<lparr>newSkillInput := '' juggling ''\<rparr>))
   = initial_state\<lparr>selectedBroadCategories := [Str ''Other''],
       skillsByCategory := [(''Other_Auto_Uncategorized'', [(''General'', [''juggling''])])]\<rparr>"
proof -
  let ?st = "initial_state\<lparr>newSkillInput := '' juggling ''\<rparr>"
  let ?jp = "\<lambda>s::string. None :: json option"
  let ?net = "\<lambda>i::nat. NetworkError"
  have tr: "js_trim '' juggling '' = ''juggling''"
    by (simp add: js_trim_def is_space_def)
  have h: "needs_auto ?st (custom_target ?st)
    \<and> (\<forall>i<5. auto_attempt ?jp (selectedBroadCategories ?st) (custom_target ?st) (?net i) = None)"
    by (simp add: needs_auto_def custom_target_def initial_state_def truthy_def tr
        auto_attempt_def)
  have sk: "skillToAdd ?st = ''juggling''"
    by (simp add: skillToAdd_def tr)
  from auto_categorize_exhausted [of ?st ?jp ?net no_builtin] h
  have tk: "target_keys (fst (resolve_target ?jp ?net ?st))
         = Some (''Other_Auto_Uncategorized'', ''General'')"
    and sel: "selectedBroadCategories (fst (handleAddSkill no_builtin ?jp ?net ?st)) =
         (if Str ''Other'' \<in> set (selectedBroadCategories ?st) then selectedBroadCategories ?st
          else selectedBroadCategories ?st @ [Str ''Other''])"
    by blast+
  have "skillToAdd ?st \<notin> set (skills_at (skillsByCategory ?st) ''Other_Auto_Uncategorized'' ''General'')"
    by (simp add: skills_at_def get2_def obj_get_def initial_state_def)
  moreover have "reads_own no_builtin (skillsByCategory ?st) ''Other_Auto_Uncategorized'' ''General''"
    using Other_plain [of "''Auto_Uncategorized''"] General_plain
    by (intro reads_own_plain) simp_all
  ultimately have "handleAddSkill no_builtin ?jp ?net ?st =
         (?st\<lparr>selectedBroadCategories := selected (fst (resolve_target ?jp ?net ?st)),
             skillsByCategory := append_skill ''Other_Auto_Uncategorized'' ''General'' (skillToAdd ?st)
               (skillsByCategory ?st),
             newSkillInput := [], selectedSuggestedSkill := []\<rparr>,
          snd (resolve_target ?jp ?net ?st))"
    using tk sk by (intro handleAddSkill_added) simp_all
  with sel sk show ?thesis
    by (simp add: initial_state_def append_skill_def skills_at_def get2_def obj_get_def)
qed

text \<open>
  C5 as stated fails: after five failed attempts the sub-category of the pending add is
  \<open>General\<close>, not \<open>Uncategorized\<close>, and nothing is filed under \<open>Uncategorized\<close>.
\<close>

theorem auto_categorize_exhausted_counterexample:
  "needs_auto (initial_state\<lparr>newSkillInput := ''juggling''\<rparr>)
     (custom_target (initial_state\<lparr>newSkillInput := ''juggling''\<rparr>))
   \<and> fst (resolve_target unparsable failing_net (initial_state\<lparr>newSkillInput := ''juggling''\<rparr>))
       = \<lparr>targetBroadCategory = Str ''Other_Auto_Uncategorized'',
          targetSubCategory = Str ''General'', selected = [Str ''Other'']\<rparr>
   \<and> Str ''General'' \<noteq> Str ''Uncategorized''
   \<and> skillsByCategory (fst (handleAddSkill no_builtin unparsable failing_net
        (initial_state\<lparr>newSkillInput := ''juggling''\<rparr>)))
       = [(''Other_Auto_Uncategorized'', [(''General'', [''juggling''])])]"
proof -
  let ?st = "initial_state\<lparr>newSkillInput := ''juggling''\<rparr>"
  have tr: "js_trim ''juggling'' = ''juggling''"
    by (simp add: js_trim_def is_space_def)
  have na: "needs_auto ?st (custom_target ?st)"
    by (simp add: needs_auto_def custom_target_def initial_state_def truthy_def tr)
  have fl: "\<forall>i<5. auto_attempt unparsable (selectedBroadCategories ?st) (custom_target ?st)
      (failing_net i) = None"
    by (simp add: auto_attempt_def failing_net_def)
  have r: "resolve_target unparsable failing_net ?st =
         (auto_fallback (selectedBroadCategories ?st) (custom_target ?st),
          backoff_events 4 @ [Fetch, ConsoleError 5])"
    using na fl by (rule resolve_target_exhausted)
  have "auto_fallback (selectedBroadCategories ?st) (custom_target ?st)
       = \<lparr>targetBroadCategory = Str ''Other_Auto_Uncategorized'',
          targetSubCategory = Str ''General'', selected = [Str ''Other'']\<rparr>"
    by (simp add: auto_fallback_def custom_target_def initial_state_def)
  with r have t: "fst (resolve_target unparsable failing_net ?st)
       = \<lparr>targetBroadCategory = Str ''Other_Auto_Uncategorized'',
          targetSubCategory = Str ''General'', selected = [Str ''Other'']\<rparr>"
    by simp
  have sk: "skillToAdd ?st = ''juggling''"
    by (simp add: skillToAdd_def tr)
  have tk: "target_keys (fst (resolve_target unparsable failing_net ?st))
         = Some (''Other_Auto_Uncategorized'', ''General'')"
    by (simp add: t target_keys_def truthy_def key_of_def)
  have "skillToAdd ?st \<notin> set (skills_at (skillsByCategory ?st) ''Other_Auto_Uncategorized'' ''General'')"
    by (simp add: skills_at_def get2_def obj_get_def initial_state_def)
  moreover have "reads_own no_builtin (skillsByCategory ?st) ''Other_Auto_Uncategorized'' ''General''"
    using Other_plain [of "''Auto_Uncategorized''"] General_plain
    by (intro reads_own_plain) simp_all
  ultimately have "handleAddSkill no_builtin unparsable failing_net ?st =
         (?st\<lparr>selectedBroadCategories := selected (fst (resolve_target unparsable failing_net ?st)),
             skillsByCategory := append_skill ''Other_Auto_Uncategorized'' ''General'' (skillToAdd ?st)
               (skillsByCategory ?st),
             newSkillInput := [], selectedSuggestedSkill := []\<rparr>,
          snd (resolve_target unparsable failing_net ?st))"
    using tk sk by (intro handleAddSkill_added) simp_all
  with sk have h: "skillsByCategory (fst (handleAddSkill no_builtin unparsable failing_net ?st)) =
      [(''Other_Auto_Uncategorized'', [(''General'', [''juggling''])])]"
    by (simp add: initial_state_def append_skill_def skills_at_def get2_def obj_get_def)
  from na t h show ?thesis
    by simp
qed

section \<open>Adding a skill\<close>





text \<open>
  C9. When the typed skill input trims to the empty string, \<open>handleAddSkill\<close> keeps the
  targets of lines 378--389 and fetches nothing: the auto-categorization does not run,
  whatever the active broad category and sub-category are. When in addition no broad
  category is active, the store and the selection are left as they are, and an add of a
  suggested skill is rejected with a warning.
\<close>

theorem suggested_skill_never_auto:
  "js_trim (newSkillInput st) = [] \<longrightarrow>
     resolve_target JSON_parse net st = (custom_target st, [])
     \<and> Fetch \<notin> set (snd (handleAddSkill builtin JSON_parse net st))
     \<and> (activeBroadCategory st = [] \<longrightarrow>
          skillsByCategory (fst (handleAddSkill builtin JSON_parse net st)) = skillsByCategory st
          \<and> selectedBroadCategories (fst (handleAddSkill builtin JSON_parse net st))
              = selectedBroadCategories st
          \<and> (skillToAdd st \<noteq> [] \<longrightarrow> snd (handleAddSkill builtin JSON_parse net st) = [ConsoleWarn]))"
proof (intro impI conjI)
  assume e: "js_trim (newSkillInput st) = []"
  then have na: "\<not> needs_auto st (custom_target st)"
    by (simp add: needs_auto_def)
  then show r: "resolve_target JSON_parse net st = (custom_target st, [])"
    by (rule resolve_target_no_auto)
  from handleAddSkill_events [of builtin JSON_parse net st] r
  show "Fetch \<notin> set (snd (handleAddSkill builtin JSON_parse net st))"
    by auto
  assume "activeBroadCategory st = []"
  then have ct: "custom_target st = \<lparr>targetBroadCategory = Str [], 
      targetSubCategory = Str (activeSubCategory st), selected = selectedBroadCategories st\<rparr>"
    by (simp add: custom_target_def)
  then have tk: "target_keys (fst (resolve_target JSON_parse net st)) = None"
    by (simp add: r target_keys_def truthy_def)
  have res: "handleAddSkill builtin JSON_parse net st =
      (if skillToAdd st = [] then (st, [])
       else (st\<lparr>newSkillInput := [], selectedSuggestedSkill := []\<rparr>, [ConsoleWarn]))"
  proof (cases "skillToAdd st = []")
    case True
    then show ?thesis by (simp add: handleAddSkill_alt)
  next
    case False
    from handleAddSkill_rejected [OF False tk] False show ?thesis
      by (simp add: r ct)
  qed
  show "skillsByCategory (fst (handleAddSkill builtin JSON_parse net st)) = skillsByCategory st"
    by (simp add: res)
  show "selectedBroadCategories (fst (handleAddSkill builtin JSON_parse net st)) = selectedBroadCategories st"
    by (simp add: res)
  assume "skillToAdd st \<noteq> []"
  then show "snd (handleAddSkill builtin JSON_parse net st) = [ConsoleWarn]"
    by (simp add: res)
qed

theorem suggested_skill_never_auto_witness:
  "handleAddSkill no_builtin (\<lambda>s. Some (JsonObject [(''broadCategory'', ''Tech & Digital'')]))
      (\<lambda>i. text_response ''{}'') (initial_state\<lparr>selectedSuggestedSkill := ''Mixing''\<rparr>)
   = (initial_state, [ConsoleWarn])"
proof -
  let ?jp = "\<lambda>s::string. Some (JsonObject [(''broadCategory'', ''Tech & Digital'')])"
  let ?net = "\<lambda>i::nat. text_response ''{}''"
  let ?st = "initial_state\<lparr>selectedSuggestedSkill := ''Mixing''\<rparr>"
  have e: "js_trim (newSkillInput ?st) = []"
    by (simp add: initial_state_def js_trim_def)
  have a: "activeBroadCategory ?st = []"
    by (simp add: initial_state_def)
  have sk: "skillToAdd ?st \<noteq> []"
    by (simp add: skillToAdd_def initial_state_def js_trim_def is_space_def)
  from suggested_skill_never_auto [of ?st ?jp ?net no_builtin] e a sk
  have "skillsByCategory (fst (handleAddSkill no_builtin ?jp ?net ?st)) = skillsByCategory ?st"
    and "selectedBroadCategories (fst (handleAddSkill no_builtin ?jp ?net ?st)) = selectedBroadCategories ?st"
    and "snd (handleAddSkill no_builtin ?jp ?net ?st) = [ConsoleWarn]"
    and "resolve_target ?jp ?net ?st = (custom_target ?st, [])"
    by blast+
  then show ?thesis
    using sk by (simp add: handleAddSkill_alt custom_target_def target_keys_def truthy_def
        initial_state_def)
qed

lemma custom_target_custom:
  assumes "activeBroadCategory st = ''Other''" and "js_trim (newCustomBroadCategory st) \<noteq> []"
  shows "resolve_target JSON_parse net st =
         (\<lparr>targetBroadCategory = Str (''Other_Custom_'' @ js_trim (newCustomBroadCategory st)),
           targetSubCategory = Str ''General'',
           selected =
             (if Str (''Other_Custom_'' @ js_trim (newCustomBroadCategory st))
                   \<in> set (selectedBroadCategories st)
              then selectedBroadCategories st
              else selectedBroadCategories st
                     @ [Str (''Other_Custom_'' @ js_trim (newCustomBroadCategory st))])\<rparr>, [])"
  using assms
  by (simp add: resolve_target_def custom_target_def needs_auto_def truthy_def Let_def)

text \<open>
  C10. When the active broad category is \<open>Other\<close>, the custom category name does not
  trim to the empty string and there is a skill to add, \<open>handleAddSkill\<close> files the
  skill under the key \<open>Other_Custom_\<close> followed by the trimmed name and under the
  sub-category \<open>General\<close>, at the end of the skills already there; no other sequence of
  the store changes, whatever the active sub-category is; the key is appended to the
  selected broad categories unless it is there already; and nothing is fetched.
\<close>

theorem custom_category_general:
  "activeBroadCategory st = ''Other'' \<and> js_trim (newCustomBroadCategory st) \<noteq> []
     \<and> skillToAdd st \<noteq> [] \<longrightarrow>
   (let k = ''Other_Custom_'' @ js_trim (newCustomBroadCategory st);
        st' = fst (handleAddSkill builtin JSON_parse net st)
    in skillToAdd st \<in> set (skills_at (skillsByCategory st') k ''General'')
       \<and> (skillToAdd st \<notin> set (skills_at (skillsByCategory st) k ''General'') \<longrightarrow>
            skills_at (skillsByCategory st') k ''General''
              = skills_at (skillsByCategory st) k ''General'' @ [skillToAdd st])
       \<and> (\<forall>b s. b \<noteq> k \<or> s \<noteq> ''General'' \<longrightarrow>
              get2 (skillsByCategory st') b s = get2 (skillsByCategory st) b s)
       \<and> selectedBroadCategories st' =
            (if Str k \<in> set (selectedBroadCategories st) then selectedBroadCategories st
             else selectedBroadCategories st @ [Str k])
       \<and> Fetch \<notin> set (snd (handleAddSkill builtin JSON_parse net st)))"
proof (intro impI, elim conjE)
  assume a: "activeBroadCategory st = ''Other''" "js_trim (newCustomBroadCategory st) \<noteq> []"
    and sk: "skillToAdd st \<noteq> []"
  define k where "k = ''Other_Custom_'' @ js_trim (newCustomBroadCategory st)"
  define st' where "st' = fst (handleAddSkill builtin JSON_parse net st)"
  note r = custom_target_custom [OF a, of JSON_parse net, folded k_def]
  have tk: "target_keys (fst (resolve_target JSON_parse net st)) = Some (k, ''General'')"
    by (simp add: r target_keys_def truthy_def key_of_def k_def)
  have own: "reads_own builtin (skillsByCategory st) k ''General''"
    using Other_plain [of "''Custom_'' @ js_trim (newCustomBroadCategory st)"] General_plain
    by (intro reads_own_plain) (simp_all add: k_def)
  have filed: "skillToAdd st \<in> set (skills_at (skillsByCategory st') k ''General'')"
    unfolding st'_def using sk tk own by (rule handleAddSkill_filed)
  have sel: "selectedBroadCategories st' =
            (if Str k \<in> set (selectedBroadCategories st) then selectedBroadCategories st
             else selectedBroadCategories st @ [Str k])"
    unfolding st'_def using sk by (simp add: handleAddSkill_selected r)
  have nofetch: "Fetch \<notin> set (snd (handleAddSkill builtin JSON_parse net st))"
    using handleAddSkill_events [of builtin JSON_parse net st] by (auto simp: r)
  have store: "skillsByCategory st' =
      (if skillToAdd st \<in> set (skills_at (skillsByCategory st) k ''General'')
       then skillsByCategory st
       else append_skill k ''General'' (skillToAdd st) (skillsByCategory st))"
    unfolding st'_def
    using handleAddSkill_duplicate [OF sk tk, of builtin] handleAddSkill_added [OF sk tk own]
    by auto
  have appended: "skillToAdd st \<notin> set (skills_at (skillsByCategory st) k ''General'') \<longrightarrow>
            skills_at (skillsByCategory st') k ''General''
              = skills_at (skillsByCategory st) k ''General'' @ [skillToAdd st]"
    by (simp add: store skills_at_append_skill_same)
  have others: "\<forall>b s. b \<noteq> k \<or> s \<noteq> ''General'' \<longrightarrow>
              get2 (skillsByCategory st') b s = get2 (skillsByCategory st) b s"
    by (simp add: store get2_append_skill_other)
  from filed appended others sel nofetch
  show "let k = ''Other_Custom_'' @ js_trim (newCustomBroadCategory st);
        st' = fst (handleAddSkill builtin JSON_parse net st)
    in skillToAdd st \<in> set (skills_at (skillsByCategory st') k ''General'')
       \<and> (skillToAdd st \<notin> set (skills_at (skillsByCategory st) k ''General'') \<longrightarrow>
            skills_at (skillsByCategory st') k ''General''
              = skills_at (skillsByCategory st) k ''General'' @ [skillToAdd st])
       \<and> (\<forall>b s. b \<noteq> k \<or> s \<noteq> ''General'' \<longrightarrow>
              get2 (skillsByCategory st') b s = get2 (skillsByCategory st) b s)
       \<and> selectedBroadCategories st' =
            (if Str k \<in> set (selectedBroadCategories st) then selectedBroadCategories st
             else selectedBroadCategories st @ [Str k])
       \<and> Fetch \<notin> set (snd (handleAddSkill builtin JSON_parse net st))"
    unfolding Let_def k_def [symmetric] st'_def [symmetric] by blast
qed

theorem custom_category_general_witness:
  "skills_at (skillsByCategory (fst (handleAddSkill no_builtin (\<lambda>s. None) (\<lambda>i. NetworkError)
      (initial_state\<lparr>activeBroadCategory := ''Other'', activeSubCategory := ''Music Production'',
         newCustomBroadCategory := '' Beekeeping '', newSkillInput := ''Queen rearing''\<rparr>))))
      ''Other_Custom_Beekeeping'' ''General'' = [''Queen rearing'']
   \<and> get2 (skillsByCategory (fst (handleAddSkill no_builtin (\<lambda>s. None) (\<lambda>i. NetworkError)
      (initial_state\<lparr>activeBroadCategory := ''Other'', activeSubCategory := ''Music Production'',
         newCustomBroadCategory := '' Beekeeping '', newSkillInput := ''Queen rearing''\<rparr>))))
      ''Other_Custom_Beekeeping'' ''Music Production'' = None
   \<and> selectedBroadCategories (fst (handleAddSkill no_builtin (\<lambda>s. None) (\<lambda>i. NetworkError)
      (initial_state\<lparr>activeBroadCategory := ''Other'', activeSubCategory := ''Music Production'',
         newCustomBroadCategory := '' Beekeeping '', newSkillInput := ''Queen rearing''\<rparr>)))
      = [Str ''Other_Custom_Beekeeping'']"
proof -
  let ?jp = "\<lambda>s::string. None :: json option"
  let ?net = "\<lambda>i::nat. NetworkError"
  let ?st = "initial_state\<lparr>activeBroadCategory := ''Other'', activeSubCategory := ''Music Production'',
         newCustomBroadCategory := '' Beekeeping '', newSkillInput := ''Queen rearing''\<rparr>"
  have tr: "js_trim (newCustomBroadCategory ?st) = ''Beekeeping''"
    by (simp add: js_trim_def is_space_def initial_state_def)
  have sk: "skillToAdd ?st = ''Queen rearing''"
    by (simp add: skillToAdd_def js_trim_def is_space_def initial_state_def)
  have hyp: "activeBroadCategory ?st = ''Other'' \<and> js_trim (newCustomBroadCategory ?st) \<noteq> []
     \<and> skillToAdd ?st \<noteq> []"
    using tr sk by (simp add: initial_state_def)
  have before: "skillsByCategory ?st = []" "selectedBroadCategories ?st = []"
    by (simp_all add: initial_state_def)
  from custom_category_general [of ?st no_builtin ?jp ?net, THEN mp, OF hyp] tr sk before
  show ?thesis
    by (simp add: Let_def initial_state_def skills_at_def [of "[]"] get2_def [of "[]"] obj_get_def)
qed

text \<open>
  A store that holds the key \<open>__proto__\<close> is reached by the handler itself: the first
  skill filed under a broad category that is not stored yet and a sub-category of that
  name (the sub-categories offered are the strings the endpoint returned). Line 481
  stops at the missing broad category and lines 488--494 define both keys as own
  properties. This is the first store at which the cleaned copy loses an array.
\<close>

lemma handleAddSkill_proto_key:
  "skillsByCategory (fst (handleAddSkill no_builtin unparsable failing_net
      (initial_state\<lparr>selectedBroadCategories := [Str ''Tech & Digital''],
         activeBroadCategory := ''Tech & Digital'', activeSubCategory := ''__proto__'',
         newSkillInput := ''React''\<rparr>)))
   = [(''Tech & Digital'', [(''__proto__'', [''React''])])]"
proof -
  let ?st = "initial_state\<lparr>selectedBroadCategories := [Str ''Tech & Digital''],
         activeBroadCategory := ''Tech & Digital'', activeSubCategory := ''__proto__'',
         newSkillInput := ''React''\<rparr>"
  have sk: "skillToAdd ?st = ''React''"
    by (simp add: skillToAdd_def js_trim_def is_space_def initial_state_def)
  have tk: "target_keys (fst (resolve_target unparsable failing_net ?st))
      = Some (''Tech & Digital'', ''__proto__'')"
    by (simp add: target_keys_def resolve_target_def custom_target_def needs_auto_def truthy_def
        key_of_def initial_state_def)
  have fresh: "skillsByCategory ?st = []"
    by (simp add: initial_state_def)
  have own: "reads_own no_builtin (skillsByCategory ?st) ''Tech & Digital'' ''__proto__''"
    by (simp add: fresh reads_own_def lookup_skills_def get2_def obj_get_def
        Object_prototype_names_def)
  have new: "skillToAdd ?st \<notin> set (skills_at (skillsByCategory ?st) ''Tech & Digital'' ''__proto__'')"
    by (simp add: fresh skills_at_def get2_def obj_get_def)
  from sk have "skillToAdd ?st \<noteq> []"
    by simp
  from handleAddSkill_added [OF this tk own new] sk fresh show ?thesis
    by (simp add: append_skill_def skills_at_def get2_def obj_get_def)
qed

section \<open>Removing a skill\<close>

lemma delete_empty_get: "AList.delete s al = [] \<Longrightarrow> s' \<noteq> s \<Longrightarrow> map_of al s' = None"
proof -
  assume e: "AList.delete s al = []" and n: "s' \<noteq> s"
  have "map_of (AList.delete s al) s' = map_of al s'"
    using n by (simp add: delete_conv')
  with e show ?thesis by simp
qed

lemma filter_neq_remove1: "distinct l \<Longrightarrow> filter (\<lambda>x. x \<noteq> k) l = remove1 k l"
  by (induction l) (auto simp: remove1_idem)

lemma handleRemoveSkill_result:
  fixes k :: string
  assumes "obj_get (skillsByCategory st) b = Some subCats" and "obj_get subCats s = Some l"
  defines "nb \<equiv> (if filter (\<lambda>x. x \<noteq> k) l = [] then AList.delete s (AList.update s [] subCats)
                  else AList.update s (filter (\<lambda>x. x \<noteq> k) l) subCats)"
  shows "handleRemoveSkill b s k st =
         Some (if nb = [] then
                 st\<lparr>skillsByCategory := AList.delete b (skillsByCategory st),
                    selectedBroadCategories :=
                      (if is_namespaced b then
                         filter (\<lambda>c. c \<noteq> Str b \<and> c \<noteq> Str ''Other'') (selectedBroadCategories st)
                       else if b \<in> set broadCategories then
                         filter (\<lambda>c. c \<noteq> Str b) (selectedBroadCategories st)
                       else selectedBroadCategories st)\<rparr>
               else st\<lparr>skillsByCategory := AList.update b nb (skillsByCategory st)\<rparr>)"
  using assms(1,2) unfolding nb_def
  by (simp add: handleRemoveSkill_def Let_def obj_keys_def)

lemma pruned_entry:
  "pruned skills \<Longrightarrow> obj_get skills b = Some subCats \<Longrightarrow> \<forall>(s, l) \<in> set subCats. l \<noteq> []"
  unfolding pruned_def obj_get_def by (auto dest!: map_of_SomeD)

text \<open>
  What \<open>handleRemoveSkill\<close> does when the addressed sequence is stored: line 504 keeps the
  skills that differ from the one to remove.
\<close>

lemma handleRemoveSkill_filter:
  assumes "get2 (skillsByCategory st) b s = Some l"
  shows "\<exists>st'. handleRemoveSkill b s k st = Some st'
        \<and> skills_at (skillsByCategory st') b s = filter (\<lambda>x. x \<noteq> k) l
        \<and> (filter (\<lambda>x. x \<noteq> k) l = [] \<longrightarrow> get2 (skillsByCategory st') b s = None)
        \<and> obj_get (skillsByCategory st') b \<noteq> Some []
        \<and> (\<forall>b'. b' \<noteq> b \<longrightarrow>
              obj_get (skillsByCategory st') b' = obj_get (skillsByCategory st) b')
        \<and> (\<forall>b' s'. b' \<noteq> b \<or> s' \<noteq> s \<longrightarrow>
              get2 (skillsByCategory st') b' s' = get2 (skillsByCategory st) b' s')
        \<and> (pruned (skillsByCategory st) \<longrightarrow> pruned (skillsByCategory st'))"
proof -
  from assms obtain subCats where sc: "obj_get (skillsByCategory st) b = Some subCats"
      and l: "obj_get subCats s = Some l"
    by (auto simp: get2_def split: option.splits)
  define f where "f = filter (\<lambda>x. x \<noteq> k) l"
  define nb where "nb = (if f = [] then AList.delete s (AList.update s [] subCats)
                         else AList.update s f subCats)"
  define st' where "st' = (if nb = [] then
                 st\<lparr>skillsByCategory := AList.delete b (skillsByCategory st),
                    selectedBroadCategories :=
                      (if is_namespaced b then
                         filter (\<lambda>c. c \<noteq> Str b \<and> c \<noteq> Str ''Other'') (selectedBroadCategories st)
                       else if b \<in> set broadCategories then
                         filter (\<lambda>c. c \<noteq> Str b) (selectedBroadCategories st)
                       else selectedBroadCategories st)\<rparr>
               else st\<lparr>skillsByCategory := AList.update b nb (skillsByCategory st)\<rparr>)"
  have res: "handleRemoveSkill b s k st = Some st'"
    unfolding st'_def nb_def f_def by (rule handleRemoveSkill_result [OF sc l])
  have store: "skillsByCategory st' =
      (if nb = [] then AList.delete b (skillsByCategory st)
       else AList.update b nb (skillsByCategory st))"
    by (simp add: st'_def)
  have nb_s: "obj_get nb s = (if f = [] then None else Some f)"
    by (simp add: nb_def obj_get_def update_conv' delete_conv')
  have nb_other: "obj_get nb s' = obj_get subCats s'" if "s' \<noteq> s" for s'
    using that by (simp add: nb_def obj_get_def update_conv' delete_conv')
  have empty_f: "f = []" if "nb = []"
    using that by (auto simp: nb_def split: if_splits)
  have at_s: "get2 (skillsByCategory st') b s = (if f = [] then None else Some f)"
    using nb_s empty_f by (auto simp: store get2_def obj_get_def update_conv' delete_conv')
  have other: "get2 (skillsByCategory st') b' s' = get2 (skillsByCategory st) b' s'"
    if "b' \<noteq> b \<or> s' \<noteq> s" for b' s'
  proof (cases "b' = b")
    case False
    then show ?thesis
      by (simp add: store get2_def obj_get_def update_conv' delete_conv')
  next
    case True
    with that have n: "s' \<noteq> s" by simp
    show ?thesis
    proof (cases "nb = []")
      case False
      with True sc nb_other [OF n] show ?thesis
        by (simp add: store get2_def obj_get_def [of "AList.update b nb (skillsByCategory st)"]
            update_conv')
    next
      case e: True
      then have "AList.delete s (AList.update s [] subCats) = []"
        by (auto simp: nb_def split: if_splits)
      from delete_empty_get [OF this n] n have "obj_get subCats s' = None"
        by (simp add: obj_get_def update_conv')
      with True e sc show ?thesis
        by (simp add: store get2_def obj_get_def [of "AList.delete b (skillsByCategory st)"]
            delete_conv')
    qed
  qed
  have nonempty: "obj_get (skillsByCategory st') b \<noteq> Some []"
    by (simp add: store obj_get_def update_conv' delete_conv')
  have inv: "pruned (skillsByCategory st')" if p: "pruned (skillsByCategory st)"
  proof (cases "nb = []")
    case True
    with p show ?thesis by (simp add: store pruned_delete)
  next
    case False
    have sub: "\<forall>(s, l) \<in> set subCats. l \<noteq> []"
      using p sc by (rule pruned_entry)
    have "\<forall>(s, l) \<in> set nb. l \<noteq> []"
    proof (cases "f = []")
      case True
      then have "set nb \<subseteq> set (AList.update s [] subCats) - {(s, [])}"
        by (auto simp: nb_def AList.delete_eq)
      also have "\<dots> \<subseteq> set subCats"
        using set_update_subset [of s "[]" subCats] by auto
      finally show ?thesis using sub by auto
    next
      case nf: False
      then have "set nb \<subseteq> insert (s, f) (set subCats)"
        using set_update_subset [of s f subCats] by (simp add: nb_def)
      with sub nf show ?thesis by auto
    qed
    with p False show ?thesis by (simp add: store pruned_update)
  qed
  have sk: "skills_at (skillsByCategory st') b s = f"
    by (simp add: skills_at_def at_s)
  have broad: "obj_get (skillsByCategory st') b' = obj_get (skillsByCategory st) b'"
    if "b' \<noteq> b" for b'
    using that by (simp add: store obj_get_def update_conv' delete_conv')
  show ?thesis
  proof (intro exI [of _ st'] conjI impI allI)
    show "handleRemoveSkill b s k st = Some st'" by (rule res)
    show "skills_at (skillsByCategory st') b s = filter (\<lambda>x. x \<noteq> k) l"
      by (simp add: sk f_def)
    show "get2 (skillsByCategory st') b s = None" if "filter (\<lambda>x. x \<noteq> k) l = []"
      using that by (simp add: at_s f_def)
    show "obj_get (skillsByCategory st') b \<noteq> Some []" by (rule nonempty)
    show "obj_get (skillsByCategory st') b' = obj_get (skillsByCategory st) b'"
      if "b' \<noteq> b" for b'
      using that by (rule broad)
    show "get2 (skillsByCategory st') b' s' = get2 (skillsByCategory st) b' s'"
      if "b' \<noteq> b \<or> s' \<noteq> s" for b' s'
      using that by (rule other)
    show "pruned (skillsByCategory st')" if "pruned (skillsByCategory st)"
      using that by (rule inv)
  qed
qed


text \<open>
  The handler is called from line 765 only, by the remove button of a skill that is
  displayed, so with a sequence that is stored. Called with any other address, the
  updater ends at line 504 with a \<open>TypeError\<close> and sets no store.
\<close>

lemma handleRemoveSkill_absent:
  "handleRemoveSkill b s k st = None \<longleftrightarrow> get2 (skillsByCategory st) b s = None"
  by (auto simp: handleRemoveSkill_def get2_def obj_get_def Let_def split: option.splits)

text \<open>
  C6. For every store, every address \<open>b\<close>, \<open>s\<close> whose sequence \<open>l\<close> is stored and, as
  in the data model, holds no skill twice, and every skill \<open>k\<close>: \<open>handleRemoveSkill\<close>
  returns a state in which the addressed sequence is \<open>l\<close> without the first exact match
  of \<open>k\<close>. The sub-category is removed when its sequence becomes empty and the broad
  category is removed when its sub-category object becomes empty; every other sequence
  stays as it was. So no empty container persists after the operation: none is left
  at the address, one that is found elsewhere was there before, and a store with no
  empty container, as the data model has it, is again one.
\<close>

theorem remove_skill_prunes:
  "get2 (skillsByCategory st) b s = Some l \<and> distinct l \<longrightarrow>
     (\<exists>st'. handleRemoveSkill b s k st = Some st'
        \<and> skills_at (skillsByCategory st') b s = remove1 k l
        \<and> (remove1 k l = [] \<longrightarrow> get2 (skillsByCategory st') b s = None)
        \<and> obj_get (skillsByCategory st') b \<noteq> Some []
        \<and> (\<forall>b' s'. b' \<noteq> b \<or> s' \<noteq> s \<longrightarrow>
              get2 (skillsByCategory st') b' s' = get2 (skillsByCategory st) b' s')
        \<and> (\<forall>b' s'. get2 (skillsByCategory st') b' s' = Some [] \<longrightarrow>
              get2 (skillsByCategory st) b' s' = Some [] \<and> (b' \<noteq> b \<or> s' \<noteq> s))
        \<and> (\<forall>b'. obj_get (skillsByCategory st') b' = Some [] \<longrightarrow>
              obj_get (skillsByCategory st) b' = Some [] \<and> b' \<noteq> b)
        \<and> (pruned (skillsByCategory st) \<longrightarrow> pruned (skillsByCategory st')))"
proof (intro impI, elim conjE)
  assume g: "get2 (skillsByCategory st) b s = Some l" and d: "distinct l"
  from handleRemoveSkill_filter [OF g, of k] obtain st'
    where res: "handleRemoveSkill b s k st = Some st'"
      and sk: "skills_at (skillsByCategory st') b s = filter (\<lambda>x. x \<noteq> k) l"
      and gone: "filter (\<lambda>x. x \<noteq> k) l = [] \<longrightarrow> get2 (skillsByCategory st') b s = None"
      and nonempty: "obj_get (skillsByCategory st') b \<noteq> Some []"
      and broad: "\<forall>b'. b' \<noteq> b \<longrightarrow>
              obj_get (skillsByCategory st') b' = obj_get (skillsByCategory st) b'"
      and other: "\<forall>b' s'. b' \<noteq> b \<or> s' \<noteq> s \<longrightarrow>
              get2 (skillsByCategory st') b' s' = get2 (skillsByCategory st) b' s'"
      and inv: "pruned (skillsByCategory st) \<longrightarrow> pruned (skillsByCategory st')"
    by blast
  have f: "filter (\<lambda>x. x \<noteq> k) l = remove1 k l"
    using d by (rule filter_neq_remove1)
  have at_s: "get2 (skillsByCategory st') b s \<noteq> Some []"
  proof (cases "remove1 k l = []")
    case True
    with gone f show ?thesis by simp
  next
    case False
    with sk f show ?thesis by (auto simp: skills_at_def)
  qed
  show "\<exists>st'. handleRemoveSkill b s k st = Some st'
        \<and> skills_at (skillsByCategory st') b s = remove1 k l
        \<and> (remove1 k l = [] \<longrightarrow> get2 (skillsByCategory st') b s = None)
        \<and> obj_get (skillsByCategory st') b \<noteq> Some []
        \<and> (\<forall>b' s'. b' \<noteq> b \<or> s' \<noteq> s \<longrightarrow>
              get2 (skillsByCategory st') b' s' = get2 (skillsByCategory st) b' s')
        \<and> (\<forall>b' s'. get2 (skillsByCategory st') b' s' = Some [] \<longrightarrow>
              get2 (skillsByCategory st) b' s' = Some [] \<and> (b' \<noteq> b \<or> s' \<noteq> s))
        \<and> (\<forall>b'. obj_get (skillsByCategory st') b' = Some [] \<longrightarrow>
              obj_get (skillsByCategory st) b' = Some [] \<and> b' \<noteq> b)
        \<and> (pruned (skillsByCategory st) \<longrightarrow> pruned (skillsByCategory st'))"
  proof (intro exI [of _ st'] conjI)
    show "handleRemoveSkill b s k st = Some st'" by (rule res)
    show "skills_at (skillsByCategory st') b s = remove1 k l"
      using sk f by simp
    show "remove1 k l = [] \<longrightarrow> get2 (skillsByCategory st') b s = None"
      using gone f by simp
    show "obj_get (skillsByCategory st') b \<noteq> Some []" by (rule nonempty)
    show "\<forall>b' s'. b' \<noteq> b \<or> s' \<noteq> s \<longrightarrow>
              get2 (skillsByCategory st') b' s' = get2 (skillsByCategory st) b' s'"
      by (rule other)
    show "\<forall>b' s'. get2 (skillsByCategory st') b' s' = Some [] \<longrightarrow>
              get2 (skillsByCategory st) b' s' = Some [] \<and> (b' \<noteq> b \<or> s' \<noteq> s)"
      using other at_s by metis
    show "\<forall>b'. obj_get (skillsByCategory st') b' = Some [] \<longrightarrow>
              obj_get (skillsByCategory st) b' = Some [] \<and> b' \<noteq> b"
      using broad nonempty by metis
    show "pruned (skillsByCategory st) \<longrightarrow> pruned (skillsByCategory st')"
      by (rule inv)
  qed
qed

theorem remove_skill_prunes_witness:
  "map_option skillsByCategory
     (handleRemoveSkill ''Creative & Design'' ''Music Production'' ''Songwriting''
        (initial_state\<lparr>skillsByCategory :=
           [(''Creative & Design'', [(''Music Production'', [''Songwriting''])]),
            (''Tech & Digital'', [(''Web'', [''React'', ''CSS''])])]\<rparr>))
   = Some [(''Tech & Digital'', [(''Web'', [''React'', ''CSS''])])]
   \<and> remove1 ''Songwriting'' [''Songwriting''] = []
   \<and> pruned [(''Tech & Digital'', [(''Web'', [''React'', ''CSS''])])]"
proof -
  let ?m = "[(''Creative & Design'', [(''Music Production'', [''Songwriting''])]),
            (''Tech & Digital'', [(''Web'', [''React'', ''CSS''])])]"
  let ?st = "initial_state\<lparr>skillsByCategory := ?m\<rparr>"
  have hyp: "get2 (skillsByCategory ?st) ''Creative & Design'' ''Music Production''
      = Some [''Songwriting''] \<and> distinct [''Songwriting'']"
    by (simp add: get2_def obj_get_def)
  have p: "pruned (skillsByCategory ?st)"
    by (simp add: pruned_def)
  from remove_skill_prunes [of ?st "''Creative & Design''" "''Music Production''"
      "[''Songwriting'']" "''Songwriting''", THEN mp, OF hyp]
  obtain st' where r: "handleRemoveSkill ''Creative & Design'' ''Music Production'' ''Songwriting'' ?st
        = Some st'"
    and removed: "skills_at (skillsByCategory st') ''Creative & Design'' ''Music Production''
          = remove1 ''Songwriting'' [''Songwriting'']"
    and inv: "pruned (skillsByCategory ?st) \<longrightarrow> pruned (skillsByCategory st')"
    by blast
  from inv p have "pruned (skillsByCategory st')"
    by blast
  moreover from r have "skillsByCategory st' = [(''Tech & Digital'', [(''Web'', [''React'', ''CSS''])])]"
    by (auto simp add: handleRemoveSkill_def Let_def obj_get_def obj_keys_def AList.delete_eq
        initial_state_def)
  ultimately show ?thesis
    using r by simp
qed

text \<open>
  Outside the data model, with a skill stored twice in the addressed sequence, line 504
  removes both.
\<close>

lemma handleRemoveSkill_duplicates:
  "map_option skillsByCategory
     (handleRemoveSkill ''Creative & Design'' ''Music Production'' ''Mixing''
        (initial_state\<lparr>skillsByCategory :=
           [(''Creative & Design'', [(''Music Production'', [''Mixing'', ''Mastering'', ''Mixing''])])]\<rparr>))
   = Some [(''Creative & Design'', [(''Music Production'', [''Mastering''])])]"
  by (simp add: handleRemoveSkill_def Let_def obj_get_def obj_keys_def initial_state_def)

text \<open>
  C7. The code differs from the claim here: removing the last skill of one custom
  category deselects \<open>Other\<close> although another custom category still has a skill.
\<close>

theorem remove_custom_unchecks_other:
  "map_option selectedBroadCategories
     (handleRemoveSkill ''Other_Custom_Beekeeping'' ''General'' ''Queen rearing''
        (initial_state\<lparr>selectedBroadCategories :=
             [Str ''Other'', Str ''Other_Custom_Beekeeping'', Str ''Other_Custom_Pottery''],
           skillsByCategory :=
             [(''Other_Custom_Beekeeping'', [(''General'', [''Queen rearing''])]),
              (''Other_Custom_Pottery'', [(''General'', [''Glazing''])])]\<rparr>))
   = Some [Str ''Other_Custom_Pottery'']
   \<and> map_option skillsByCategory
     (handleRemoveSkill ''Other_Custom_Beekeeping'' ''General'' ''Queen rearing''
        (initial_state\<lparr>selectedBroadCategories :=
             [Str ''Other'', Str ''Other_Custom_Beekeeping'', Str ''Other_Custom_Pottery''],
           skillsByCategory :=
             [(''Other_Custom_Beekeeping'', [(''General'', [''Queen rearing''])]),
              (''Other_Custom_Pottery'', [(''General'', [''Glazing''])])]\<rparr>))
   = Some [(''Other_Custom_Pottery'', [(''General'', [''Glazing''])])]"
  by (simp add: handleRemoveSkill_def Let_def obj_get_def obj_keys_def AList.delete_eq
      is_namespaced_def js_startsWith_def initial_state_def)

section \<open>Unchecking a broad category\<close>

lemma js_includes_prefix: "js_startsWith s sub \<Longrightarrow> js_includes s sub"
  by (cases s) (auto simp: js_startsWith_def)

lemma js_startsWith_append: "js_startsWith (p @ s) p"
  by (simp add: js_startsWith_def)

lemma js_includes_append: "js_includes (a @ sub @ b) sub"
proof (induction a)
  case Nil
  show ?case using js_startsWith_append [of sub b] by (simp add: js_includes_prefix)
next
  case (Cons c a)
  then show ?case by simp
qed

lemma fold_delete_get:
  "map_of (fold (\<lambda>key ns. if T key then AList.delete key ns else ns) ks ns) k =
   (if k \<in> set ks \<and> T k then None else map_of ns k)"
  by (induction ks arbitrary: ns) (auto simp: delete_conv')

lemma cascade_delete_alt:
  "cascade_delete v prev =
   fold (\<lambda>key ns. if is_namespaced key \<and> js_includes key (''__'' @ v)
                   then AList.delete key ns else ns)
     (obj_keys (AList.delete v prev)) (AList.delete v prev)"
proof -
  have step: "(\<lambda>key ns.
                 (let ns1 = (if js_startsWith key ''Other_Custom_'' \<and> js_includes key (''__'' @ v)
                             then AList.delete key ns else ns)
                  in if js_startsWith key ''Other_Auto_'' \<and> js_includes key (''__'' @ v)
                     then AList.delete key ns1 else ns1)) =
              (\<lambda>key ns. if is_namespaced key \<and> js_includes key (''__'' @ v)
                   then AList.delete key ns else ns)"
    by (intro ext) (auto simp: Let_def is_namespaced_def delete_idem)
  show ?thesis
    unfolding cascade_delete_def step by (simp only: Let_def)
qed

lemma cascade_delete_get:
  "obj_get (cascade_delete v prev) k =
   (if k = v \<or> is_namespaced k \<and> js_includes k (''__'' @ v) then None else obj_get prev k)"
proof -
  have absent: "k \<notin> set (obj_keys (AList.delete v prev)) \<Longrightarrow> map_of (AList.delete v prev) k = None"
    by (simp add: obj_keys_def map_of_eq_None_iff)
  have "obj_get (cascade_delete v prev) k =
      (if k \<in> set (obj_keys (AList.delete v prev))
            \<and> (is_namespaced k \<and> js_includes k (''__'' @ v))
       then None else map_of (AList.delete v prev) k)"
    unfolding cascade_delete_alt obj_get_def by (rule fold_delete_get)
  also have "\<dots> = (if is_namespaced k \<and> js_includes k (''__'' @ v) then None
                    else map_of (AList.delete v prev) k)"
    using absent by auto
  also have "\<dots> = (if k = v \<or> is_namespaced k \<and> js_includes k (''__'' @ v) then None
                    else obj_get prev k)"
    by (simp add: obj_get_def delete_conv')
  finally show ?thesis .
qed

lemma handleBroadCategoryChange_store:
  "skillsByCategory (handleBroadCategoryChange v False st) = cascade_delete v (skillsByCategory st)"
  by (simp add: handleBroadCategoryChange_def Let_def)

text \<open>
  C8. After \<open>handleBroadCategoryChange\<close> with the box of a broad category unchecked,
  the store has no entry for that category and none for any key that starts with
  \<open>Other_Custom_\<close> or \<open>Other_Auto_\<close> and contains \<open>__\<close> followed by the category; in
  particular none for a custom or auto key that ends with that qualifier.
\<close>

theorem uncheck_cascade:
  "obj_get (skillsByCategory (handleBroadCategoryChange v False st)) v = None
   \<and> (\<forall>k. is_namespaced k \<and> js_includes k (''__'' @ v) \<longrightarrow>
          obj_get (skillsByCategory (handleBroadCategoryChange v False st)) k = None)
   \<and> (\<forall>name. obj_get (skillsByCategory (handleBroadCategoryChange v False st))
                 (''Other_Custom_'' @ name @ ''__'' @ v) = None
             \<and> obj_get (skillsByCategory (handleBroadCategoryChange v False st))
                 (''Other_Auto_'' @ name @ ''__'' @ v) = None)"
proof (intro conjI allI impI)
  show "obj_get (skillsByCategory (handleBroadCategoryChange v False st)) v = None"
    by (simp add: handleBroadCategoryChange_store cascade_delete_get)
  show "obj_get (skillsByCategory (handleBroadCategoryChange v False st)) k = None"
    if "is_namespaced k \<and> js_includes k (''__'' @ v)" for k
    using that by (simp add: handleBroadCategoryChange_store cascade_delete_get)
  fix name
  have inc: "js_includes (p @ name @ ''__'' @ v) (''__'' @ v)" for p
    using js_includes_append [of "p @ name" "''__'' @ v" "[]"] by simp
  have "is_namespaced (''Other_Custom_'' @ name @ ''__'' @ v)"
    unfolding is_namespaced_def using js_startsWith_append [of "''Other_Custom_''"] by blast
  then show "obj_get (skillsByCategory (handleBroadCategoryChange v False st))
                 (''Other_Custom_'' @ name @ ''__'' @ v) = None"
    using inc [of "''Other_Custom_''"]
    by (simp only: handleBroadCategoryChange_store cascade_delete_get if_True simp_thms)
  have "is_namespaced (''Other_Auto_'' @ name @ ''__'' @ v)"
    unfolding is_namespaced_def using js_startsWith_append [of "''Other_Auto_''"] by blast
  then show "obj_get (skillsByCategory (handleBroadCategoryChange v False st))
                 (''Other_Auto_'' @ name @ ''__'' @ v) = None"
    using inc [of "''Other_Auto_''"]
    by (simp only: handleBroadCategoryChange_store cascade_delete_get if_True simp_thms)
qed

theorem uncheck_cascade_witness:
  "is_namespaced ''Other_Custom_Specialized Consulting__Creative & Design''
   \<and> js_includes ''Other_Custom_Specialized Consulting__Creative & Design'' ''__Creative & Design''
   \<and> skillsByCategory (handleBroadCategoryChange ''Creative & Design'' False
        (initial_state\<lparr>selectedBroadCategories := [Str ''Creative & Design'', Str ''Other''],
           skillsByCategory :=
             [(''Creative & Design'', [(''Music Production'', [''Songwriting''])]),
              (''Other_Custom_Specialized Consulting__Creative & Design'',
               [(''General'', [''Brand strategy''])]),
              (''Tech & Digital'', [(''Web'', [''React''])])]\<rparr>))
       = [(''Tech & Digital'', [(''Web'', [''React''])])]"
proof -
  let ?k = "''Other_Custom_Specialized Consulting__Creative & Design''"
  let ?st = "initial_state\<lparr>selectedBroadCategories := [Str ''Creative & Design'', Str ''Other''],
           skillsByCategory :=
             [(''Creative & Design'', [(''Music Production'', [''Songwriting''])]),
              (?k, [(''General'', [''Brand strategy''])]),
              (''Tech & Digital'', [(''Web'', [''React''])])]\<rparr>"
  have ns: "is_namespaced ?k \<and> js_includes ?k (''__'' @ ''Creative & Design'')"
    by (simp add: is_namespaced_def js_startsWith_def)
  from uncheck_cascade [of "''Creative & Design''" ?st] ns
  have gone: "obj_get (skillsByCategory (handleBroadCategoryChange ''Creative & Design'' False ?st))
        ''Creative & Design'' = None"
     "obj_get (skillsByCategory (handleBroadCategoryChange ''Creative & Design'' False ?st)) ?k = None"
    by blast+
  have "skillsByCategory (handleBroadCategoryChange ''Creative & Design'' False ?st)
       = [(''Tech & Digital'', [(''Web'', [''React''])])]"
    by (simp add: handleBroadCategoryChange_def cascade_delete_def Let_def obj_keys_def
        AList.delete_eq js_startsWith_def initial_state_def)
  with ns gone show ?thesis by simp
qed

end
